theory Spec2Isabelle
  imports Complex_Main "HOL-Library.AList"
begin

section \<open>Python values used by the visualizer\<close>

text \<open>
  The visualizer (\<^verbatim>\<open>neurokernel/LPU/utils/visualizer.py\<close>) is Python 2 code.  Every
  exception the modelled code can raise is a value of \<open>error\<close>; a function that can raise
  returns \<open>error + 'a\<close> with \<open>Inl\<close> for the exception.  \<open>Dangling\<close> is not a Python
  exception: it marks a reference outside the object store, which no Python execution
  produces.  \<open>Unmodelled\<close> marks the spherical-dome panels, whose first draw and redraw
  are floating-point projection code outside this development.
\<close>

datatype error =
    ValueError | AssertionError | KeyError | IndexError | ZeroDivisionError
  | TypeError | RuntimeError | AttributeError | Dangling | Unmodelled

text \<open>Sequencing of computations that can raise.\<close>

definition bind :: "error + 'a \<Rightarrow> ('a \<Rightarrow> error + 'b) \<Rightarrow> error + 'b" where
  "bind m f = (case m of Inl e \<Rightarrow> Inl e | Inr x \<Rightarrow> f x)"

fun foldM :: "('a \<Rightarrow> 's \<Rightarrow> error + 's) \<Rightarrow> 'a list \<Rightarrow> 's \<Rightarrow> error + 's" where
  "foldM f [] s = Inr s"
| "foldM f (x # xs) s = bind (f x s) (foldM f xs)"

fun mapM :: "('a \<Rightarrow> error + 'b) \<Rightarrow> 'a list \<Rightarrow> error + 'b list" where
  "mapM f [] = Inr []"
| "mapM f (x # xs) = bind (f x) (\<lambda>y. bind (mapM f xs) (\<lambda>ys. Inr (y # ys)))"

text \<open>
  Keys under which a source is stored: a string, or (when \<open>add_LPU\<close> is called with a
  false name on a measured source) \<open>None\<close> and an integer.
\<close>

datatype pykey = KNone | KInt int | KStr string

subsection \<open>str(int) and int(str)\<close>

fun str_nat :: "nat \<Rightarrow> string" where
  "str_nat n = (if n < 10 then [char_of (48 + n)]
                else str_nat (n div 10) @ [char_of (48 + n mod 10)])"

declare str_nat.simps [simp del]

definition str_int :: "int \<Rightarrow> string" where
  "str_int i = (if i < 0 then CHR ''-'' # str_nat (nat (- i)) else str_nat (nat i))"

definition py_str :: "pykey \<Rightarrow> string" where
  "py_str k = (case k of KNone \<Rightarrow> ''None'' | KInt i \<Rightarrow> str_int i | KStr s \<Rightarrow> s)"

definition startswith :: "string \<Rightarrow> string \<Rightarrow> bool" where
  "startswith s p = (take (length p) s = p)"

definition is_space :: "char \<Rightarrow> bool" where
  "is_space c = (c \<in> set [CHR '' '', CHR 0x09, CHR 0x0A, CHR 0x0B, CHR 0x0C, CHR 0x0D])"

definition is_digit :: "char \<Rightarrow> bool" where
  "is_digit c = (48 \<le> (of_char c :: nat) \<and> (of_char c :: nat) \<le> 57)"

definition digits_val :: "string \<Rightarrow> int" where
  "digits_val ds = foldl (\<lambda>acc c. 10 * acc + (int (of_char c) - 48)) 0 ds"

definition strip :: "string \<Rightarrow> string" where
  "strip s = rev (dropWhile is_space (rev (dropWhile is_space s)))"

text \<open>
  \<open>int(s)\<close> on a string: surrounding whitespace is dropped, one sign is allowed, the
  rest must be decimal digits; anything else raises \<open>ValueError\<close>.
\<close>

definition py_int :: "string \<Rightarrow> error + int" where
  "py_int s =
     (let u = strip s;
          neg = (u \<noteq> [] \<and> hd u = CHR ''-'');
          ds = (if u \<noteq> [] \<and> (hd u = CHR ''-'' \<or> hd u = CHR ''+'') then tl u else u)
      in if ds = [] \<or> \<not> list_all is_digit ds then Inl ValueError
         else Inr (if neg then - digits_val ds else digits_val ds))"

subsection \<open>range and slices\<close>

text \<open>
  Python 2's \<open>range(start, stop, step)\<close> builds the whole list before the loop body
  runs.  The length is CPython's \<open>get_len_of_range\<close>.
\<close>

definition range_len :: "int \<Rightarrow> int \<Rightarrow> int \<Rightarrow> nat" where
  "range_len start stop step =
     (if 0 < step \<and> start < stop then nat ((stop - start - 1) div step + 1)
      else if step < 0 \<and> stop < start then nat ((start - stop - 1) div (- step) + 1)
      else 0)"

definition py_range :: "int \<Rightarrow> int \<Rightarrow> int \<Rightarrow> error + int list" where
  "py_range start stop step =
     (if step = 0 then Inl ValueError
      else Inr (map (\<lambda>i. start + int i * step) [0..<range_len start stop step]))"

text \<open>
  \<open>slice(start, stop, step).indices(n)\<close>: the clipping CPython applies before a slice
  selects positions of a sequence of length \<open>n\<close>.
\<close>

definition slice_indices ::
  "int option \<Rightarrow> int option \<Rightarrow> int option \<Rightarrow> nat \<Rightarrow> error + int list" where
  "slice_indices start stop step n =
     (let st = (case step of None \<Rightarrow> 1 | Some k \<Rightarrow> k);
          lower = (if st < 0 then - 1 else 0);
          upper = (if st < 0 then int n - 1 else int n);
          a = (case start of
                 None \<Rightarrow> (if st < 0 then upper else lower)
               | Some i \<Rightarrow> (if i < 0 then max (i + int n) lower else min i upper));
          b = (case stop of
                 None \<Rightarrow> (if st < 0 then lower else upper)
               | Some i \<Rightarrow> (if i < 0 then max (i + int n) lower else min i upper))
      in py_range a b st)"

text \<open>
  An integer index into an axis of length \<open>n\<close>: negative indices count from the end,
  anything outside \<open>[-n, n)\<close> raises \<open>IndexError\<close>.
\<close>

definition norm_index :: "nat \<Rightarrow> int \<Rightarrow> error + nat" where
  "norm_index n i =
     (if 0 \<le> i \<and> i < int n then Inr (nat i)
      else if i < 0 \<and> - int n \<le> i then Inr (nat (i + int n))
      else Inl IndexError)"

section \<open>Arrays, topologies, panel configurations\<close>

text \<open>
  A two-dimensional \<open>numpy\<close> array: its shape and its cells.  A source's matrix has one
  row per channel and one column per timestep.
\<close>

record ndarray =
  shape0 :: nat
  shape1 :: nat
  cell :: "nat \<Rightarrow> nat \<Rightarrow> real"

definition np_transpose :: "ndarray \<Rightarrow> ndarray" where
  "np_transpose a = \<lparr>shape0 = shape1 a, shape1 = shape0 a, cell = (\<lambda>i j. cell a j i)\<rparr>"

text \<open>The time window \<open>win\<close> of \<open>add_LPU\<close>: a slice or a list of column indices.\<close>

datatype window = WSlice "int option" "int option" "int option" | WList "int list"

text \<open>\<open>data[:, win]\<close>\<close>

definition select_cols :: "ndarray \<Rightarrow> window \<Rightarrow> error + ndarray" where
  "select_cols a w =
     bind (case w of
             WSlice start stop step \<Rightarrow>
               bind (slice_indices start stop step (shape1 a)) (\<lambda>cs. Inr (map nat cs))
           | WList idxs \<Rightarrow> mapM (norm_index (shape1 a)) idxs)
       (\<lambda>cs. Inr \<lparr>shape0 = shape0 a, shape1 = length cs,
                   cell = (\<lambda>i j. cell a i (cs ! j))\<rparr>)"

text \<open>\<open>data[ids, t]\<close> with a list of rows and one column.\<close>

definition take_col :: "ndarray \<Rightarrow> int list \<Rightarrow> int \<Rightarrow> error + real list" where
  "take_col a ids t =
     bind (mapM (norm_index (shape0 a)) ids) (\<lambda>rs.
     bind (norm_index (shape1 a) t) (\<lambda>c.
       Inr (map (\<lambda>r. cell a r c) rs)))"

text \<open>\<open>data[i, j]\<close> with two integers.\<close>

definition take_cell :: "ndarray \<Rightarrow> int \<Rightarrow> int \<Rightarrow> error + real" where
  "take_cell a i j =
     bind (norm_index (shape0 a) i) (\<lambda>r.
     bind (norm_index (shape1 a) j) (\<lambda>c. Inr (cell a r c)))"

text \<open>\<open>np.reshape(data[ids, lo:hi], (-1,))\<close>: the window of every listed row, row after row.\<close>

definition take_window :: "ndarray \<Rightarrow> int list \<Rightarrow> int \<Rightarrow> int \<Rightarrow> error + real list" where
  "take_window a ids lo hi =
     bind (mapM (norm_index (shape0 a)) ids) (\<lambda>rs.
     bind (slice_indices (Some lo) (Some hi) None (shape1 a)) (\<lambda>cs.
       Inr (concat (map (\<lambda>r. map (\<lambda>c. cell a r (nat c)) cs) rs))))"

text \<open>\<open>data[idx, lo:hi]\<close> with one row.\<close>

definition take_row_window :: "ndarray \<Rightarrow> int \<Rightarrow> int \<Rightarrow> int \<Rightarrow> error + real list" where
  "take_row_window a idx lo hi =
     bind (norm_index (shape0 a) idx) (\<lambda>r.
     bind (slice_indices (Some lo) (Some hi) None (shape1 a)) (\<lambda>cs.
       Inr (map (\<lambda>c. cell a r (nat c)) cs)))"

text \<open>\<open>np.where(v)[0]\<close>: the positions of the nonzero entries.\<close>

definition np_where :: "real list \<Rightarrow> nat list" where
  "np_where v = filter (\<lambda>i. v ! i \<noteq> 0) [0..<length v]"

text \<open>
  \<open>np.reshape(v, shape)\<close> keeps the values and only checks sizes: one entry of the shape
  may be \<open>-1\<close> and is then inferred; otherwise the product must be the number of values.
\<close>

definition reshape_ok :: "nat \<Rightarrow> int list \<Rightarrow> bool" where
  "reshape_ok n shp =
     (let known = filter (\<lambda>d. d \<noteq> - 1) shp; p = prod_list known
      in list_all (\<lambda>d. 0 \<le> d) known \<and>
         (if length known = length shp then p = int n
          else length known + 1 = length shp \<and> p \<noteq> 0 \<and> int n mod p = 0))"

definition np_reshape :: "real list \<Rightarrow> int list \<Rightarrow> error + real list" where
  "np_reshape v shp = (if reshape_ok (length v) shp then Inr v else Inl ValueError)"

text \<open>
  A topology: the nodes of the graph in iteration order, each with its attributes.  The
  spiking flag is required; the name is optional (reading an absent one raises
  \<open>KeyError\<close>).
\<close>

record node =
  spiking :: bool
  name :: "string option"

type_synonym topology = "(string \<times> node) list"

text \<open>
  The channel-index groups of a panel: a list of lists, or the dictionary
  \<open>{0: [...], 1: [...]}\<close> that name resolution builds.
\<close>

datatype ids_container = IdsList "int list list" | IdsDict "(int \<times> int list) list"

definition ids_len :: "ids_container \<Rightarrow> nat" where
  "ids_len c = (case c of IdsList gs \<Rightarrow> length gs | IdsDict kvs \<Rightarrow> length (remdups (map fst kvs)))"

text \<open>\<open>ids[k]\<close>: a list raises \<open>IndexError\<close>, a dictionary \<open>KeyError\<close>.\<close>

definition ids_get :: "ids_container \<Rightarrow> int \<Rightarrow> error + int list" where
  "ids_get c k =
     (case c of
        IdsList gs \<Rightarrow> bind (norm_index (length gs) k) (\<lambda>i. Inr (gs ! i))
      | IdsDict kvs \<Rightarrow> (case map_of kvs k of None \<Rightarrow> Inl KeyError | Some g \<Rightarrow> Inr g))"

text \<open>
  What a drawable last received from the engine.  The drawing itself belongs to the
  plotting library; the model keeps the arrays handed over: the two components of a
  vector field, the two operands of a hue-magnitude image, the values of an image and
  whether it is shown transposed, the x and y data of a line, the vertical marks
  \<open>(x, ymin, ymax)\<close> of a raster.
\<close>

datatype handle =
    HQuiver "real list" "real list"
  | HHsv "real list" "real list"
  | HImage "real list" bool
  | HLine "real list" "real list"
  | HAxes "(real \<times> real \<times> real) list"

text \<open>The values a panel configuration holds.\<close>

datatype pyval =
    VStr string | VInt int | VBool bool | VIds ids_container
  | VShape "int list" | VFloats "real list" | VHandle handle

text \<open>
  A configuration dictionary, as an association list with distinct keys.  Python 2
  leaves the iteration order of a dictionary to the implementation; the list order
  stands for it.
\<close>

type_synonym config = "(string \<times> pyval) list"

definition getitem :: "config \<Rightarrow> string \<Rightarrow> error + pyval" where
  "getitem c k = (case map_of c k of None \<Rightarrow> Inl KeyError | Some v \<Rightarrow> Inr v)"

definition contains :: "config \<Rightarrow> string \<Rightarrow> bool" where
  "contains c k = (map_of c k \<noteq> None)"

definition setitem :: "config \<Rightarrow> string \<Rightarrow> pyval \<Rightarrow> config" where
  "setitem c k v = AList.update k v c"

text \<open>Truth value of a configuration value (\<open>if config['trans']:\<close>).\<close>

definition truthy :: "pyval \<Rightarrow> bool" where
  "truthy v =
     (case v of
        VStr s \<Rightarrow> s \<noteq> [] | VInt i \<Rightarrow> i \<noteq> 0 | VBool b \<Rightarrow> b
      | VIds c \<Rightarrow> ids_len c \<noteq> 0 | VShape l \<Rightarrow> l \<noteq> [] | VFloats l \<Rightarrow> l \<noteq> []
      | VHandle h \<Rightarrow> True)"

text \<open>
  \<open>config['ids']\<close>, \<open>config['ids'][k]\<close>, \<open>config['shape']\<close> and \<open>config['handle']\<close>, each
  read as the kind of value the code goes on to use; a value of another kind fails at
  that use.
\<close>

definition get_ids :: "config \<Rightarrow> error + ids_container" where
  "get_ids c = bind (getitem c ''ids'') (\<lambda>v. case v of VIds i \<Rightarrow> Inr i | _ \<Rightarrow> Inl TypeError)"

definition get_group :: "config \<Rightarrow> int \<Rightarrow> error + int list" where
  "get_group c k = bind (get_ids c) (\<lambda>i. ids_get i k)"

definition get_shape :: "config \<Rightarrow> error + int list" where
  "get_shape c = bind (getitem c ''shape'') (\<lambda>v. case v of VShape s \<Rightarrow> Inr s | _ \<Rightarrow> Inl TypeError)"

definition get_handle :: "config \<Rightarrow> error + handle" where
  "get_handle c =
     bind (getitem c ''handle'') (\<lambda>v. case v of VHandle h \<Rightarrow> Inr h | _ \<Rightarrow> Inl AttributeError)"

section \<open>The visualizer object\<close>

text \<open>
  The fields of \<open>visualizer\<close> that the modelled methods read or write, under their
  source names without the leading underscore (\<open>configs\<close> is \<open>_config\<close>, \<open>cur_t\<close> is
  \<open>_t\<close>); the methods \<open>_initialize\<close>, \<open>_update\<close> and \<open>_close\<close> are \<open>p_initialize\<close>,
  \<open>p_update\<close> and \<open>p_close\<close>.  \<open>objs\<close> is the store of dictionary
  objects: a configuration is referred to by its position in the store, so a caller's
  dictionary and the engine's copy of it are different objects.  \<open>ffmpeg_found\<close> and
  \<open>avconv_found\<close> are what \<open>which\<close> answers for the two encoder binaries.  \<open>writer\<close> says
  whether a video writer has been set up, \<open>frames\<close> counts the canvas redraws of
  \<open>_update\<close>, \<open>grabbed\<close> the frames submitted to the writer.
\<close>

record visualizer =
  update_interval :: "int option"
  out_file :: "string option"
  FFMpeg :: "bool option"
  configs :: "(pykey \<times> nat list) list"
  rows :: nat
  cols :: nat
  cur_t :: int
  dt :: real
  data :: "(pykey \<times> ndarray) list"
  graph :: "(pykey \<times> topology) list"
  id_to_data_idx :: "(pykey \<times> (int \<times> nat) list) list"
  maxt :: "int option"
  final_frame_name :: "string option"
  objs :: "config list"
  ffmpeg_found :: bool
  avconv_found :: bool
  writer :: bool
  frames :: nat
  grabbed :: nat

text \<open>\<open>__init__\<close>, for a host where \<open>which\<close> answers \<open>ff\<close> and \<open>av\<close> and a store \<open>os\<close>.\<close>

definition init :: "bool \<Rightarrow> bool \<Rightarrow> config list \<Rightarrow> visualizer" where
  "init ff av os =
     \<lparr>update_interval = Some 50, out_file = None, FFMpeg = None, configs = [],
      rows = 0, cols = 0, cur_t = 1, dt = 1, data = [], graph = [],
      id_to_data_idx = [], maxt = None, final_frame_name = None, objs = os,
      ffmpeg_found = ff, avconv_found = av, writer = False, frames = 0, grabbed = 0\<rparr>"

text \<open>Dictionary lookup \<open>d[k]\<close> on the engine's dictionaries.\<close>

definition lookup :: "('k \<times> 'v) list \<Rightarrow> 'k \<Rightarrow> error + 'v" where
  "lookup d k = (case map_of d k of None \<Rightarrow> Inl KeyError | Some v \<Rightarrow> Inr v)"

definition key_truthy :: "pykey \<Rightarrow> bool" where
  "key_truthy k = (case k of KNone \<Rightarrow> False | KInt i \<Rightarrow> i \<noteq> 0 | KStr s \<Rightarrow> s \<noteq> [])"

section \<open>Source registry: \<open>add_LPU\<close>\<close>

text \<open>
  \<open>[int(n) for n, k in graph.nodes_iter(True) if k['spiking']]\<close>: the identifiers of the
  spiking nodes, in node order; the first identifier that is not an integer raises.
\<close>

definition spiking_ids :: "topology \<Rightarrow> error + int list" where
  "spiking_ids g = mapM (\<lambda>(n, k). py_int n) (filter (\<lambda>(n, k). spiking k) g)"

text \<open>\<open>{m: i for i, m in enumerate(sorted(ids))}\<close>: a later pair replaces an earlier one
  with the same key.\<close>

definition index_map :: "int list \<Rightarrow> (int \<times> nat) list" where
  "index_map ids = foldl (\<lambda>d (i, m). AList.update m i d) [] (enumerate 0 (sort ids))"

text \<open>
  The truth value of the \<open>graph\<close> argument: a graph object with no node is false (its
  \<open>len\<close> is 0).  \<open>gexf_file\<close> is given as the topology that reading the file yields, and
  \<open>data_file\<close> as the array that reading it yields.
\<close>

definition graph_truthy :: "topology option \<Rightarrow> bool" where
  "graph_truthy g = (case g of None \<Rightarrow> False | Some ns \<Rightarrow> ns \<noteq> [])"

text \<open>The three-way choice between \<open>gexf_file\<close> and \<open>graph\<close>; the result is the topology
  to store, if any.\<close>

definition choose_graph :: "topology option \<Rightarrow> topology option \<Rightarrow> error + topology option" where
  "choose_graph gexf_file g =
     (if gexf_file \<noteq> None \<and> \<not> graph_truthy g then Inr gexf_file
      else if graph_truthy g \<and> gexf_file = None then Inr g
      else if graph_truthy g \<and> gexf_file \<noteq> None then Inl ValueError
      else Inr None)"

text \<open>\<open>if self._maxt: self._maxt = min(self._maxt, n) else: self._maxt = n\<close>\<close>

definition update_maxt :: "int option \<Rightarrow> int \<Rightarrow> int option" where
  "update_maxt m n =
     (case m of None \<Rightarrow> Some n | Some k \<Rightarrow> (if k \<noteq> 0 then Some (min k n) else Some n))"

text \<open>
  The first half of \<open>add_LPU\<close>: the topology is stored and, for a measured source, the
  index map is built; an input source is renamed.  The result is the name under which
  the second half stores the data.
\<close>

definition register_topology ::
  "visualizer \<Rightarrow> topology option \<Rightarrow> pykey \<Rightarrow> bool \<Rightarrow> topology option \<Rightarrow>
   error + pykey \<times> visualizer" where
  "register_topology self gexf_file LPU is_input g =
     (if (gexf_file \<noteq> None \<or> graph_truthy g) \<and> \<not> is_input then
        bind (choose_graph gexf_file g) (\<lambda>go.
          let self0 = (case go of None \<Rightarrow> self
                       | Some ns \<Rightarrow> self\<lparr>graph := AList.update LPU ns (graph self)\<rparr>) in
          bind (lookup (graph self0) LPU) (\<lambda>ns.
          bind (spiking_ids ns) (\<lambda>ids.
            Inr (LPU, self0\<lparr>id_to_data_idx :=
                              AList.update LPU (index_map ids) (id_to_data_idx self0)\<rparr>))))
      else
        (let LPU1 = KStr (''input_'' @ (if key_truthy LPU then py_str LPU
                                         else str_nat (length (data self))))
         in bind (choose_graph gexf_file g) (\<lambda>go.
              case go of
                None \<Rightarrow> Inr (LPU1, self)
              | Some ns \<Rightarrow> Inr (LPU1, self\<lparr>graph := AList.update LPU1 ns (graph self)\<rparr>))))"

text \<open>
  The second half: the array is transposed, the time window is applied, the matrix is
  stored and \<open>maxt\<close> is updated with its number of timesteps.
\<close>

definition store_data ::
  "visualizer \<Rightarrow> ndarray \<Rightarrow> pykey \<Rightarrow> window option \<Rightarrow> error + visualizer" where
  "store_data self data_file LPU win =
     (let LPU3 = (if \<not> key_truthy LPU then KInt (int (length (data self))) else LPU);
          d = np_transpose data_file
      in bind (case win of None \<Rightarrow> Inr d | Some w \<Rightarrow> select_cols d w) (\<lambda>d1.
           Inr (self\<lparr>data := AList.update LPU3 d1 (data self),
                     maxt := update_maxt (maxt self) (int (shape1 d1))\<rparr>)))"

definition add_LPU ::
  "visualizer \<Rightarrow> ndarray \<Rightarrow> topology option \<Rightarrow> pykey \<Rightarrow> window option \<Rightarrow> bool \<Rightarrow>
   topology option \<Rightarrow> error + visualizer" where
  "add_LPU self data_file gexf_file LPU win is_input g =
     bind (register_topology self gexf_file LPU is_input g) (\<lambda>(LPU2, self1).
       store_data self1 data_file LPU2 win)"

text \<open>
  The older \<^verbatim>\<open>utils/visualizer.py\<close> has the same method without \<open>is_input\<close>, \<open>graph\<close>
  and the index map.
\<close>

definition add_LPU_legacy ::
  "visualizer \<Rightarrow> ndarray \<Rightarrow> topology option \<Rightarrow> pykey \<Rightarrow> window option \<Rightarrow> error + visualizer" where
  "add_LPU_legacy self data_file gexf_file LPU win =
     (case gexf_file of
        Some ns \<Rightarrow>
          store_data (self\<lparr>graph := AList.update LPU ns (graph self)\<rparr>) data_file LPU win
      | None \<Rightarrow>
          store_data self data_file
            (KStr (''input_'' @ (if key_truthy LPU then py_str LPU
                                 else str_nat (length (data self))))) win)"

section \<open>Panel spec builder: \<open>add_plot\<close>\<close>

text \<open>\<open>config[k] = v\<close> on the dictionary object at position \<open>a\<close> of the store.\<close>

definition set_obj :: "visualizer \<Rightarrow> nat \<Rightarrow> string \<Rightarrow> pyval \<Rightarrow> visualizer" where
  "set_obj self a k v = self\<lparr>objs := (objs self)[a := setitem (objs self ! a) k v]\<rparr>"

text \<open>\<open>self._config[LPU].append(config)\<close>, the key being present.\<close>

definition append_panel :: "visualizer \<Rightarrow> pykey \<Rightarrow> nat \<Rightarrow> visualizer" where
  "append_panel self LPU a =
     self\<lparr>configs := AList.update LPU
                         ((case map_of (configs self) LPU of None \<Rightarrow> [] | Some l \<Rightarrow> l) @ [a])
                         (configs self)\<rparr>"

text \<open>
  Name resolution: for the \<open>i\<close>-th name, every \<open>id\<close> in \<open>range(len(nodes))\<close> whose node
  \<open>str(id)\<close> carries that name contributes \<open>id - shift\<close>.
\<close>

definition resolve_names ::
  "visualizer \<Rightarrow> pykey \<Rightarrow> string list \<Rightarrow> int \<Rightarrow> error + (int \<times> int list) list" where
  "resolve_names self LPU names shift =
     mapM (\<lambda>(i, nm).
        bind (lookup (graph self) LPU) (\<lambda>ns.
        bind (mapM (\<lambda>n.
                bind (lookup (graph self) LPU) (\<lambda>ns1.
                bind (lookup ns1 (str_nat n)) (\<lambda>nd.
                  case name nd of
                    None \<Rightarrow> Inl KeyError
                  | Some m \<Rightarrow> Inr (if m = nm then [int n - shift] else []))))
              [0..<length ns]) (\<lambda>ls.
          Inr (int i, concat ls))))
       (enumerate 0 names)"

text \<open>\<open>LPU.split('_', 1)[1]\<close> for a string with an underscore.\<close>

definition after_underscore :: "string \<Rightarrow> string" where
  "after_underscore s = tl (dropWhile (\<lambda>c. c \<noteq> CHR ''_'') s)"

definition default_title :: "pykey \<Rightarrow> string list \<Rightarrow> error + string" where
  "default_title LPU names =
     (case names of
        [] \<Rightarrow> Inl IndexError
      | n0 # _ \<Rightarrow>
          if n0 \<noteq> [] then Inr (py_str LPU @ '' - '' @ n0)
          else if startswith (py_str LPU) ''input_''
               then Inr (after_underscore (py_str LPU) @ '' - '' @ ''Input'')
          else Inr (py_str LPU))"

text \<open>
  \<open>add_plot(config_dict, LPU, names, shift)\<close>.  \<open>config_dict\<close> is the position of the
  caller's dictionary in the store; \<open>names\<close> is the list the method works with (a single
  name has been wrapped into a list).  \<open>dkey\<close> is the key under which the input branch
  looks the data up: \<open>LPU\<close> in the current file, the constant \<open>'input'\<close> in the older one.
\<close>

definition add_plot_with ::
  "pykey \<Rightarrow> visualizer \<Rightarrow> nat \<Rightarrow> pykey \<Rightarrow> string list \<Rightarrow> int \<Rightarrow> error + visualizer" where
  "add_plot_with dkey self config_dict LPU names shift =
     (if length (objs self) \<le> config_dict then Inl Dangling
      else
        let c = length (objs self);
            self1 = self\<lparr>objs := objs self @ [objs self ! config_dict]\<rparr>;
            self2 = (if map_of (configs self1) LPU = None
                     then self1\<lparr>configs := configs self1 @ [(LPU, [])]\<rparr> else self1)
        in bind
             (if contains (objs self2 ! c) ''ids'' then Inr (append_panel self2 LPU c)
              else if startswith (py_str LPU) ''input'' then
                bind (lookup (data self2) dkey) (\<lambda>d.
                  Inr (append_panel
                         (set_obj self2 c ''ids'' (VIds (IdsList [map int [0..<shape0 d]])))
                         LPU c))
              else
                bind (resolve_names self2 LPU names shift) (\<lambda>kvs.
                  Inr (append_panel (set_obj self2 c ''ids'' (VIds (IdsDict kvs))) LPU c)))
             (\<lambda>self3.
                if \<not> contains (objs self3 ! c) ''title'' then
                  bind (default_title LPU names) (\<lambda>ti. Inr (set_obj self3 c ''title'' (VStr ti)))
                else Inr self3))"

definition add_plot :: "visualizer \<Rightarrow> nat \<Rightarrow> pykey \<Rightarrow> string list \<Rightarrow> int \<Rightarrow> error + visualizer" where
  "add_plot self config_dict LPU names shift = add_plot_with LPU self config_dict LPU names shift"

definition add_plot_legacy ::
  "visualizer \<Rightarrow> nat \<Rightarrow> pykey \<Rightarrow> string list \<Rightarrow> int \<Rightarrow> error + visualizer" where
  "add_plot_legacy self config_dict LPU names shift =
     add_plot_with (KStr ''input'') self config_dict LPU names shift"

section \<open>Layout and first draw: \<open>_initialize\<close>\<close>

text \<open>
  \<open>int(np.ceil(np.sqrt(n)))\<close> and \<open>int(np.ceil(n / float(c)))\<close>.  The floating-point
  square root, quotient and ceiling are taken as the real ones (they agree on the
  counts of panels and channels that occur); the division raises on a zero divisor.
\<close>

definition ceil_sqrt :: "nat \<Rightarrow> nat" where
  "ceil_sqrt n = nat \<lceil>sqrt (real n)\<rceil>"

text \<open>The least \<open>r' \<ge> r\<close> with \<open>n \<le> r' * r'\<close>, by search: an integer computation of
  \<open>ceil_sqrt\<close> (see \<open>ceil_sqrt_code\<close>).\<close>

function sqrt_up :: "nat \<Rightarrow> nat \<Rightarrow> nat" where
  "sqrt_up n r = (if n \<le> r * r then r else sqrt_up n (Suc r))"
  by pat_completeness auto
termination
proof (relation "measure (\<lambda>(n, r). n - r)")
  show "wf (measure (\<lambda>(n, r). n - r))" by simp
next
  fix n r :: nat
  assume "\<not> n \<le> r * r"
  then have "r < n" by (metis le_square linorder_not_le order_le_less_trans)
  then show "((n, Suc r), (n, r)) \<in> measure (\<lambda>(n, r). n - r)" by simp
qed

declare sqrt_up.simps [simp del]

definition ceil_div :: "nat \<Rightarrow> nat \<Rightarrow> error + nat" where
  "ceil_div n c = (if c = 0 then Inl ZeroDivisionError else Inr (nat \<lceil>real n / real c\<rceil>))"

text \<open>Comparisons of \<open>config['type']\<close> with an integer, as Python 2 evaluates them: a
  boolean is a number, and a value that is not a number is above every number.\<close>

definition py_eq_int :: "pyval \<Rightarrow> int \<Rightarrow> bool" where
  "py_eq_int v k =
     (case v of VInt i \<Rightarrow> i = k | VBool b \<Rightarrow> (if b then 1 else 0) = k | _ \<Rightarrow> False)"

definition py_lt_int :: "pyval \<Rightarrow> int \<Rightarrow> bool" where
  "py_lt_int v k =
     (case v of VInt i \<Rightarrow> i < k | VBool b \<Rightarrow> (if b then 1 else 0) < k | _ \<Rightarrow> False)"

text \<open>\<open>assert len(config['ids']) == n\<close>, then \<open>config['type'] = k\<close>.\<close>

definition assert_groups :: "config \<Rightarrow> nat \<Rightarrow> int \<Rightarrow> error + config" where
  "assert_groups c n k =
     bind (get_ids c) (\<lambda>i.
       if ids_len i = n then Inr (setitem c ''type'' (VInt k)) else Inl AssertionError)"

text \<open>
  The first block of the panel loop: the plot kind given as a string becomes a number,
  and a panel without a kind gets a default one.
\<close>

definition resolve_type :: "visualizer \<Rightarrow> pykey \<Rightarrow> config \<Rightarrow> error + config" where
  "resolve_type self LPU c =
     (if contains c ''type'' then
        bind (getitem c ''type'') (\<lambda>ty.
          if ty = VStr ''quiver'' then assert_groups c 2 0
          else if ty = VStr ''hsv'' then assert_groups c 2 1
          else if ty = VStr ''image'' then assert_groups c 1 2
          else if ty = VStr ''waveform'' then Inr (setitem c ''type'' (VInt 3))
          else if ty = VStr ''raster'' then Inr (setitem c ''type'' (VInt 4))
          else if ty = VStr ''rate'' then Inr (setitem c ''type'' (VInt 5))
          else if ty = VStr ''dome'' then Inr (setitem c ''type'' (VInt 6))
          else Inl ValueError)
      else
        bind (if startswith (py_str LPU) ''input'' then
                bind (lookup (graph self) LPU) (\<lambda>ns.
                bind (get_group c 0) (\<lambda>g0.
                bind (norm_index (length g0) 0) (\<lambda>j.
                bind (lookup ns (str_int (g0 ! j))) (\<lambda>nd.
                  Inr (\<not> spiking nd)))))
              else Inr False)
          (\<lambda>b. Inr (setitem c ''type'' (VInt (if b then 2 else 4)))))"

text \<open>The second block: a panel of kind 0, 1 or 2 without a shape gets one from the number
  of channels of its first group.\<close>

definition infer_shape :: "config \<Rightarrow> error + config" where
  "infer_shape c =
     bind (getitem c ''type'') (\<lambda>ty.
       if py_lt_int ty 3 then
         (if \<not> contains c ''shape'' then
            bind (get_group c 0) (\<lambda>g0.
              let num_neurons = length g0; s0 = ceil_sqrt num_neurons in
              bind (ceil_div num_neurons s0) (\<lambda>s1.
                Inr (setitem c ''shape'' (VShape [int s0, int s1]))))
          else Inr c)
       else Inr c)"

text \<open>\<open>np.reshape(self._data[LPU][config['ids'][k], 0], config['shape'])\<close>\<close>

definition first_frame :: "visualizer \<Rightarrow> pykey \<Rightarrow> config \<Rightarrow> int \<Rightarrow> error + real list" where
  "first_frame self LPU c k =
     bind (lookup (data self) LPU) (\<lambda>d.
     bind (get_group c k) (\<lambda>g.
     bind (take_col d g 0) (\<lambda>v.
     bind (get_shape c) (\<lambda>shp. np_reshape v shp))))"

text \<open>
  The third block: the first draw of the panel at time 0, by kind.  A panel of kind 5
  draws nothing.
\<close>

definition first_draw :: "visualizer \<Rightarrow> pykey \<Rightarrow> config \<Rightarrow> error + config" where
  "first_draw self LPU c =
     bind (getitem c ''type'') (\<lambda>ty.
       if py_eq_int ty 0 then
         bind (first_frame self LPU c 0) (\<lambda>u.
         bind (first_frame self LPU c 1) (\<lambda>v.
           Inr (setitem c ''handle'' (VHandle (HQuiver u v)))))
       else if py_eq_int ty 1 then
         bind (first_frame self LPU c 0) (\<lambda>x.
         bind (first_frame self LPU c 1) (\<lambda>y.
           Inr (setitem c ''handle'' (VHandle (HHsv x y)))))
       else if py_eq_int ty 2 then
         bind (if contains c ''trans''
               then bind (getitem c ''trans'') (\<lambda>tr. Inr (tr = VBool True, c))
               else Inr (False, setitem c ''trans'' (VBool False))) (\<lambda>(to_transpose, c1).
         bind (first_frame self LPU c1 0) (\<lambda>v.
           Inr (setitem c1 ''handle'' (VHandle (HImage v to_transpose)))))
       else if py_eq_int ty 3 then
         bind (get_group c 0) (\<lambda>g0.
           if length g0 = 1 then
             bind (lookup (data self) LPU) (\<lambda>d.
             bind (take_cell d (g0 ! 0) 0) (\<lambda>y0.
               Inr (setitem (setitem c ''handle'' (VHandle (HLine [0] [y0])))
                      ''ydata'' (VFloats [y0]))))
           else
             bind (lookup (data self) LPU) (\<lambda>d.
             bind (take_col d g0 0) (\<lambda>v.
               Inr (setitem c ''handle''
                      (VHandle (HLine (map real [0..<length v]) v))))))
       else if py_eq_int ty 4 then
         (let c1 = setitem c ''handle'' (VHandle (HAxes [(0, 0, 0.01)])) in
          bind (get_group c1 0) (\<lambda>g0.
          bind (lookup (id_to_data_idx self) LPU) (\<lambda>m.
            if m = [] then Inl ValueError
            else
              let min_id = Min (set (map fst m)) in
              bind (lookup (id_to_data_idx self) LPU) (\<lambda>m1.
              bind (lookup m1 min_id) (\<lambda>min_idx.
              bind (lookup (data self) LPU) (\<lambda>d.
              bind (norm_index (shape0 d) (int min_idx)) (\<lambda>r. Inr c1)))))))
       else if py_eq_int ty 6 then Inl Unmodelled
       else Inr c)"

text \<open>
  One panel of \<open>_initialize\<close>.  The style keys of the configuration are then applied to
  the drawables with every failure swallowed; the dictionary stays as it is, and the
  model does not follow what a style key does to a drawable.
\<close>

definition init_panel :: "visualizer \<Rightarrow> pykey \<Rightarrow> config \<Rightarrow> error + config" where
  "init_panel self LPU c =
     bind (resolve_type self LPU c) (\<lambda>c1.
     bind (infer_shape c1) (\<lambda>c2. first_draw self LPU c2))"

text \<open>Truth values of \<open>out_filename\<close> and \<open>update_interval\<close>.\<close>

definition str_truthy :: "string option \<Rightarrow> bool" where
  "str_truthy f = (case f of None \<Rightarrow> False | Some n \<Rightarrow> n \<noteq> [])"

definition interval_truthy :: "int option \<Rightarrow> bool" where
  "interval_truthy u = (case u of None \<Rightarrow> False | Some k \<Rightarrow> k \<noteq> 0)"

text \<open>
  The end of \<open>_initialize\<close>: with an output file and a true update interval, an encoder
  is chosen (\<open>RuntimeError\<close> when the host has none that fits), the writer is set up and
  the first frame is submitted.
\<close>

definition setup_sink :: "visualizer \<Rightarrow> error + visualizer" where
  "setup_sink self =
     (if str_truthy (out_file self) \<and> interval_truthy (update_interval self) then
        (if (case FFMpeg self of
               None \<Rightarrow> ffmpeg_found self \<or> avconv_found self
             | Some True \<Rightarrow> ffmpeg_found self
             | Some False \<Rightarrow> avconv_found self)
         then Inr (self\<lparr>writer := True, grabbed := grabbed self + 1\<rparr>)
         else Inl RuntimeError)
      else Inr self)"

text \<open>The panel at position \<open>a\<close> of the store is replaced by what \<open>f\<close> makes of it.\<close>

definition on_obj :: "(config \<Rightarrow> error + config) \<Rightarrow> nat \<Rightarrow> visualizer \<Rightarrow> error + visualizer" where
  "on_obj f a self =
     (if length (objs self) \<le> a then Inl Dangling
      else bind (f (objs self ! a)) (\<lambda>c. Inr (self\<lparr>objs := (objs self)[a := c]\<rparr>)))"

text \<open>
  The grid of panel slots: unless \<open>rows * cols\<close> is the number of panels,
  \<open>cols = ceil(sqrt(n))\<close> and \<open>rows = ceil(n / cols)\<close>.
\<close>

definition layout_grid :: "visualizer \<Rightarrow> error + visualizer" where
  "layout_grid self =
     (let num_plots = sum_list (map (\<lambda>(k, l). length l) (configs self)) in
      if rows self * cols self \<noteq> num_plots then
        let c = ceil_sqrt num_plots in
        bind (ceil_div num_plots c) (\<lambda>r. Inr (self\<lparr>rows := r, cols := c\<rparr>))
      else Inr self)"

text \<open>The panels of one source, in order.\<close>

definition init_source :: "pykey \<times> nat list \<Rightarrow> visualizer \<Rightarrow> error + visualizer" where
  "init_source ka self =
     foldM (\<lambda>a self1. on_obj (init_panel self1 (fst ka)) a self1) (snd ka) self"

text \<open>
  \<open>_initialize\<close>: the grid, then every panel of every source in the order of
  \<open>self._config\<close>, then the frame sink.
\<close>

definition p_initialize :: "visualizer \<Rightarrow> error + visualizer" where
  "p_initialize self =
     bind (layout_grid self) (\<lambda>self1.
     bind (foldM init_source (configs self1) self1) setup_sink)"

section \<open>Animation driver: \<open>_update\<close> and \<open>run\<close>\<close>

text \<open>The update interval as a number; arithmetic on \<open>None\<close> raises \<open>TypeError\<close>.\<close>

definition get_interval :: "visualizer \<Rightarrow> error + int" where
  "get_interval self = (case update_interval self of None \<Rightarrow> Inl TypeError | Some k \<Rightarrow> Inr k)"

definition get_line :: "config \<Rightarrow> error + real list \<times> real list" where
  "get_line c =
     bind (get_handle c) (\<lambda>h. case h of HLine x y \<Rightarrow> Inr (x, y) | _ \<Rightarrow> Inl AttributeError)"

text \<open>\<open>config['ydata']\<close> as the list that \<open>extend\<close> is called on.\<close>

definition get_ydata :: "config \<Rightarrow> error + real list" where
  "get_ydata c =
     bind (getitem c ''ydata'') (\<lambda>v. case v of VFloats yd \<Rightarrow> Inr yd | _ \<Rightarrow> Inl AttributeError)"

definition get_image :: "config \<Rightarrow> error + handle" where
  "get_image c =
     bind (get_handle c) (\<lambda>h.
       case h of HImage v tr \<Rightarrow> Inr h | HHsv x y \<Rightarrow> Inr h | _ \<Rightarrow> Inl AttributeError)"

text \<open>\<open>np.reshape(data[ids[k], t], shape)\<close> in \<open>_update\<close>.\<close>

definition frame_at :: "ndarray \<Rightarrow> ids_container \<Rightarrow> int \<Rightarrow> int \<Rightarrow> int list \<Rightarrow> error + real list" where
  "frame_at d ids k t shp =
     bind (ids_get ids k) (\<lambda>g. bind (take_col d g t) (\<lambda>v. np_reshape v shp))"

text \<open>
  One neuron of an event-raster panel: \<open>j\<close> is its row in the panel, \<open>i\<close> its identifier.
  The lookup of the identifier in the index map stands in a \<open>try\<close> whose \<open>except\<close>
  continues with the next neuron; the reading of the data and the drawing do not.
\<close>

definition raster_step ::
  "visualizer \<Rightarrow> ndarray \<Rightarrow> pykey \<Rightarrow> nat \<times> int \<Rightarrow> config \<Rightarrow> error + config" where
  "raster_step self d key ji c =
     (case bind (lookup (id_to_data_idx self) key) (\<lambda>m. lookup m (snd ji)) of
        Inl e \<Rightarrow> Inr c
      | Inr idx \<Rightarrow>
          bind (get_interval self) (\<lambda>s.
          bind (take_row_window d (int idx) (max 0 (cur_t self - s)) (cur_t self)) (\<lambda>w.
            foldM (\<lambda>time c1.
                     bind (get_handle c1) (\<lambda>h.
                       case h of
                         HAxes ms \<Rightarrow>
                           Inr (setitem c1 ''handle''
                                  (VHandle (HAxes (ms @
                                     [(real_of_int (cur_t self - int time) * dt self,
                                       real (fst ji) + 0.75, real (fst ji) + 1.25)]))))
                       | _ \<Rightarrow> Inl AttributeError))
              (np_where w) c)))"

text \<open>
  The recompute of one panel in \<open>_update\<close>, by kind; \<open>d\<close> is the matrix of the panel's
  source and \<open>key\<close> the current value of the loop variable \<open>key\<close>.
\<close>

definition update_panel :: "visualizer \<Rightarrow> ndarray \<Rightarrow> pykey \<Rightarrow> config \<Rightarrow> error + config" where
  "update_panel self d key c =
     bind (getitem c ''type'') (\<lambda>ty.
       if py_eq_int ty 3 then
         bind (get_group c 0) (\<lambda>g0.
           if length g0 = 1 then
             bind (get_ydata c) (\<lambda>yd.
             bind (get_interval self) (\<lambda>s.
             bind (take_window d g0 (max 0 (cur_t self - s)) (cur_t self)) (\<lambda>w.
               let c1 = setitem c ''ydata'' (VFloats (yd @ w)) in
               bind (get_line c1) (\<lambda>xy.
                 Inr (setitem c1 ''handle''
                        (VHandle (HLine (map (\<lambda>i. dt self * real i) [0..<nat (cur_t self)])
                                        (yd @ w))))))))
           else
             bind (get_line c) (\<lambda>xy.
             bind (take_col d g0 (cur_t self)) (\<lambda>v.
               Inr (setitem c ''handle'' (VHandle (HLine (fst xy) v))))))
       else if py_eq_int ty 4 then
         bind (get_group c 0) (\<lambda>g0. foldM (raster_step self d key) (enumerate 0 g0) c)
       else if py_eq_int ty 0 then
         bind (get_shape c) (\<lambda>shp.
         bind (get_ids c) (\<lambda>ids.
         bind (frame_at d ids 0 (cur_t self) shp) (\<lambda>u.
         bind (get_handle c) (\<lambda>h0.
         bind (frame_at d ids 1 (cur_t self) shp) (\<lambda>v.
         bind (get_handle c) (\<lambda>h.
           case h of
             HQuiver u0 v0 \<Rightarrow> Inr (setitem c ''handle'' (VHandle (HQuiver u v)))
           | _ \<Rightarrow> Inr c))))))
       else if py_eq_int ty 1 then
         bind (get_shape c) (\<lambda>shp.
         bind (get_ids c) (\<lambda>ids.
         bind (frame_at d ids 0 (cur_t self) shp) (\<lambda>x.
         bind (frame_at d ids 1 (cur_t self) shp) (\<lambda>y.
         bind (get_image c) (\<lambda>h.
           Inr (setitem c ''handle'' (VHandle (HHsv x y))))))))
       else if py_eq_int ty 2 then
         bind (get_ids c) (\<lambda>ids.
         bind (getitem c ''trans'') (\<lambda>tr.
         bind (get_image c) (\<lambda>h.
         bind (ids_get ids 0) (\<lambda>g0.
         bind (take_col d g0 (cur_t self)) (\<lambda>v.
         bind (get_shape c) (\<lambda>shp.
         bind (np_reshape v shp) (\<lambda>v1.
           Inr (setitem c ''handle'' (VHandle (HImage v1 (truthy tr)))))))))))
       else if py_eq_int ty 6 then Inl Unmodelled
       else Inr c)"

text \<open>
  One panel of the loop in \<open>_update\<close>.  After the recompute the style loop
  \<open>for key in config.iterkeys()\<close> runs with every failure swallowed; it leaves the loop
  variable \<open>key\<close> at the last key of the configuration, and the next panel of the same
  source looks its index map up under that key.
\<close>

definition update_one :: "ndarray \<Rightarrow> nat \<Rightarrow> pykey \<times> visualizer \<Rightarrow> error + pykey \<times> visualizer" where
  "update_one d a ks =
     (let key = fst ks; self = snd ks in
      if length (objs self) \<le> a then Inl Dangling
      else bind (update_panel self d key (objs self ! a)) (\<lambda>c.
             Inr (if c = [] then key else KStr (last (map fst c)),
                  self\<lparr>objs := (objs self)[a := c]\<rparr>)))"

definition update_source :: "pykey \<times> nat list \<Rightarrow> visualizer \<Rightarrow> error + visualizer" where
  "update_source ka self =
     bind (lookup (data self) (fst ka)) (\<lambda>d.
     bind (foldM (update_one d) (snd ka) (fst ka, self)) (\<lambda>ks. Inr (snd ks)))"

text \<open>
  The end of \<open>_update\<close>: the canvas is redrawn, and the frame is submitted when there is
  an output file, which needs the writer; then the cursor advances.
\<close>

definition draw_frame :: "visualizer \<Rightarrow> error + visualizer" where
  "draw_frame self =
     (let self1 = self\<lparr>frames := frames self + 1\<rparr> in
      if str_truthy (out_file self1) then
        (if writer self1 then Inr (self1\<lparr>grabbed := grabbed self1 + 1\<rparr>)
         else Inl AttributeError)
      else Inr self1)"

definition advance :: "visualizer \<Rightarrow> error + visualizer" where
  "advance self = bind (get_interval self) (\<lambda>s. Inr (self\<lparr>cur_t := cur_t self + s\<rparr>))"

text \<open>\<open>_update\<close>: every panel of every source is recomputed, then the frame is drawn.\<close>

definition p_update :: "visualizer \<Rightarrow> error + visualizer" where
  "p_update self =
     bind (foldM update_source (configs self) self) (\<lambda>self1.
     bind (draw_frame self1) advance)"

text \<open>\<open>_close\<close>: the writer is finished, which needs a writer.\<close>

definition p_close :: "visualizer \<Rightarrow> error + visualizer" where
  "p_close self = (if writer self then Inr self else Inl AttributeError)"

text \<open>
  The start of the loop in \<open>run\<close>: an update interval that is false is replaced by
  \<open>maxt - 1\<close>, the cursor is set to the interval plus one, and \<open>range\<close> builds the list of
  ticks.
\<close>

definition effective_interval :: "visualizer \<Rightarrow> error + visualizer" where
  "effective_interval self =
     bind (if \<not> interval_truthy (update_interval self) then
             (case maxt self of
                None \<Rightarrow> Inl TypeError
              | Some m \<Rightarrow> Inr (self\<lparr>update_interval := Some (m - 1)\<rparr>))
           else Inr self) (\<lambda>self1.
     bind (get_interval self1) (\<lambda>s. Inr (self1\<lparr>cur_t := s + 1\<rparr>)))"

definition tick_list :: "visualizer \<Rightarrow> error + int list" where
  "tick_list self =
     bind (get_interval self) (\<lambda>s.
       case maxt self of None \<Rightarrow> Inl TypeError | Some m \<Rightarrow> py_range s m s)"

text \<open>
  \<open>run(final_frame_name)\<close>: \<open>_initialize\<close>, the list of ticks, one \<open>_update\<close> per tick, and
  \<open>_close\<close> when there is an output file.
\<close>

definition run :: "visualizer \<Rightarrow> string option \<Rightarrow> error + visualizer" where
  "run self ffn =
     bind (p_initialize (self\<lparr>final_frame_name := ffn\<rparr>)) (\<lambda>self1.
     bind (effective_interval self1) (\<lambda>self2.
     bind (tick_list self2) (\<lambda>ticks.
     bind (foldM (\<lambda>i. p_update) ticks self2) (\<lambda>self3.
       if str_truthy (out_file self3) then p_close self3 else Inr self3))))"

section \<open>The statements of the specification, and example inputs\<close>

text \<open>
  The shape the specification gives for \<open>n\<close> selected channels:
  \<open>(ceil(sqrt(n)), ceil(n / ceil(sqrt(n))))\<close>.
\<close>

definition spec_shape :: "nat \<Rightarrow> nat \<times> nat" where
  "spec_shape n = (nat \<lceil>sqrt (real n)\<rceil>, nat \<lceil>real n / real (nat \<lceil>sqrt (real n)\<rceil>)\<rceil>)"

text \<open>An image panel over ten channels, its kind resolved and no shape given.\<close>

definition image10 :: config where
  "image10 = [(''type'', VInt 2), (''ids'', VIds (IdsList [[0, 1, 2, 3, 4, 5, 6, 7, 8, 9]]))]"

text \<open>The plot kinds \<open>_initialize\<close> recognizes.\<close>

definition recognized_kinds :: "string list" where
  "recognized_kinds = [''quiver'', ''hsv'', ''image'', ''waveform'', ''raster'', ''rate'', ''dome'']"

text \<open>
  A measured source: a topology with the spiking neurons 5, 2 and 9 and the non-spiking
  neuron 7, and an output file of four timesteps for three channels (one row per
  timestep, as the file is read).
\<close>

definition lamina_graph :: topology where
  "lamina_graph =
     [(''5'', \<lparr>spiking = True, name = Some ''R1''\<rparr>),
      (''2'', \<lparr>spiking = True, name = Some ''R1''\<rparr>),
      (''7'', \<lparr>spiking = False, name = Some ''L1''\<rparr>),
      (''9'', \<lparr>spiking = True, name = Some ''L1''\<rparr>)]"

definition lamina_output :: ndarray where
  "lamina_output =
     \<lparr>shape0 = 4, shape1 = 3,
      cell = (\<lambda>i j. [[0, 1, 0], [1, 0, 0], [0, 0, 1], [1, 1, 0]] ! i ! j)\<rparr>"

text \<open>A file of \<open>n\<close> timesteps for \<open>c\<close> channels, all zero.\<close>

definition blank :: "nat \<Rightarrow> nat \<Rightarrow> ndarray" where
  "blank n c = \<lparr>shape0 = n, shape1 = c, cell = (\<lambda>i j. 0)\<rparr>"

text \<open>Configuration dictionaries a caller may hold.\<close>

definition raster_config :: config where
  "raster_config = [(''type'', VStr ''raster''), (''ids'', VIds (IdsList [[5, 2, 9]]))]"

definition hsv_one_group :: config where
  "hsv_one_group = [(''type'', VStr ''hsv''), (''ids'', VIds (IdsList [[0, 1]]))]"

definition unknown_kind :: config where
  "unknown_kind = [(''type'', VStr ''HSV''), (''ids'', VIds (IdsList [[0], [1]]))]"

definition waveform_config :: config where
  "waveform_config = [(''type'', VStr ''waveform''), (''ids'', VIds (IdsList [[0]]))]"

definition untyped_config :: config where
  "untyped_config = [(''ids'', VIds (IdsList [[7]]))]"

definition image_config :: config where
  "image_config =
     [(''type'', VStr ''image''), (''ids'', VIds (IdsList [[0, 1, 2]])), (''shape'', VShape [1, 3])]"

definition raster_absent :: config where
  "raster_absent = [(''type'', VStr ''raster''), (''ids'', VIds (IdsList [[5, 7]]))]"

definition caller_dicts :: "config list" where
  "caller_dicts =
     [raster_config, hsv_one_group, unknown_kind, waveform_config, untyped_config,
      image_config, raster_absent]"

text \<open>
  The visualizer after \<open>V.add_LPU(lamina_output, lamina_graph, 'lamina')\<close> on a fresh
  object (lemma \<open>add_LPU_lamina\<close>), and after
  \<open>V.add_plot(raster_config, 'lamina')\<close> on top of that (lemma \<open>add_plot_lamina_raster\<close>).
\<close>

definition lamina :: visualizer where
  "lamina =
     (init False False caller_dicts)
       \<lparr>graph := [(KStr ''lamina'', lamina_graph)],
        id_to_data_idx := [(KStr ''lamina'', [(2, 0), (5, 1), (9, 2)])],
        data := [(KStr ''lamina'', np_transpose lamina_output)],
        maxt := Some 4\<rparr>"

definition lamina_raster :: visualizer where
  "lamina_raster =
     lamina\<lparr>objs := caller_dicts @ [raster_config @ [(''title'', VStr ''lamina'')]],
            configs := [(KStr ''lamina'', [7])]\<rparr>"

definition hsv_two_groups :: config where
  "hsv_two_groups = [(''type'', VStr ''hsv''), (''ids'', VIds (IdsList [[0], [1]]))]"

text \<open>
  Two relations between a state and a later one, used to say what a step leaves alone:
  \<open>only_objs\<close> when nothing but the contents of the store may differ, \<open>same_setup\<close> when
  the configuration of the run (interval, bound, sources, panels, sink settings) is the
  same.
\<close>

definition only_objs :: "visualizer \<Rightarrow> visualizer \<Rightarrow> bool" where
  "only_objs s s' =
     (update_interval s' = update_interval s \<and> out_file s' = out_file s \<and>
      FFMpeg s' = FFMpeg s \<and> configs s' = configs s \<and> rows s' = rows s \<and>
      cols s' = cols s \<and> cur_t s' = cur_t s \<and> dt s' = dt s \<and> data s' = data s \<and>
      graph s' = graph s \<and> id_to_data_idx s' = id_to_data_idx s \<and> maxt s' = maxt s \<and>
      final_frame_name s' = final_frame_name s \<and> ffmpeg_found s' = ffmpeg_found s \<and>
      avconv_found s' = avconv_found s \<and> writer s' = writer s \<and> frames s' = frames s \<and>
      grabbed s' = grabbed s \<and> length (objs s') = length (objs s))"

definition same_setup :: "visualizer \<Rightarrow> visualizer \<Rightarrow> bool" where
  "same_setup s s' =
     (update_interval s' = update_interval s \<and> out_file s' = out_file s \<and>
      FFMpeg s' = FFMpeg s \<and> configs s' = configs s \<and> dt s' = dt s \<and> data s' = data s \<and>
      graph s' = graph s \<and> id_to_data_idx s' = id_to_data_idx s \<and> maxt s' = maxt s \<and>
      final_frame_name s' = final_frame_name s \<and> ffmpeg_found s' = ffmpeg_found s \<and>
      avconv_found s' = avconv_found s \<and> length (objs s') = length (objs s))"

text \<open>The example source with 100 timesteps and with one timestep, a raster panel on
  it, and the update interval set to 0.\<close>

definition lamina100 :: visualizer where
  "lamina100 =
     lamina_raster\<lparr>data := [(KStr ''lamina'', np_transpose (blank 100 3))], maxt := Some 100,
                   update_interval := Some 0\<rparr>"

definition lamina1 :: visualizer where
  "lamina1 =
     lamina_raster\<lparr>data := [(KStr ''lamina'', np_transpose (blank 1 3))], maxt := Some 1,
                   update_interval := Some 0\<rparr>"

text \<open>An index \<open>i\<close> that an axis of length \<open>n\<close> accepts.\<close>

definition in_axis :: "nat \<Rightarrow> int \<Rightarrow> bool" where
  "in_axis n i = (- int n \<le> i \<and> i < int n)"


text \<open>
  The example source with a single-channel waveform panel and the update interval 1, and
  with an image panel and the update interval 0 (lemmas \<open>lamina_waveform_reachable\<close> and
  \<open>lamina_image_reachable\<close>).
\<close>

definition lamina_waveform :: visualizer where
  "lamina_waveform =
     lamina\<lparr>objs := caller_dicts @ [waveform_config @ [(''title'', VStr ''lamina'')]],
            configs := [(KStr ''lamina'', [7])], update_interval := Some 1\<rparr>"

definition lamina_image :: visualizer where
  "lamina_image =
     lamina\<lparr>objs := caller_dicts @ [image_config @ [(''title'', VStr ''lamina'')]],
            configs := [(KStr ''lamina'', [7])], update_interval := Some 0\<rparr>"

text \<open>
  The positions of all panels, in the order of \<open>self._config\<close>, and the invariant that no
  two panels are the same dictionary object and every panel is in the store.
\<close>

definition panel_addrs :: "(pykey \<times> nat list) list \<Rightarrow> nat list" where
  "panel_addrs cs = concat (map snd cs)"

definition panels_ok :: "visualizer \<Rightarrow> bool" where
  "panels_ok s =
     (distinct (panel_addrs (configs s)) \<and>
      list_all (\<lambda>a. a < length (objs s)) (panel_addrs (configs s)))"

section \<open>Facts about the Python layer\<close>

lemma ceil_sqrt_eqI:
  assumes "n \<le> r * r" and "r = 0 \<or> (r - 1) * (r - 1) < n"
  shows "ceil_sqrt n = r"
proof -
  have up: "sqrt (real n) \<le> real r"
  proof -
    have "real n \<le> (real r)\<^sup>2"
      using assms(1) by (metis of_nat_le_iff of_nat_mult power2_eq_square)
    then show ?thesis by (simp add: real_le_lsqrt)
  qed
  have lo: "real r - 1 < sqrt (real n)"
  proof (cases "r = 0")
    case True
    then show ?thesis by (simp add: order_less_le_trans [of _ 0])
  next
    case False
    then have "(r - 1) * (r - 1) < n" using assms(2) by simp
    then have "(real (r - 1))\<^sup>2 < real n"
      by (metis of_nat_less_iff of_nat_mult power2_eq_square)
    then have "real (r - 1) < sqrt (real n)" by (simp add: real_less_rsqrt)
    then show ?thesis using False by (simp add: of_nat_diff)
  qed
  have "\<lceil>sqrt (real n)\<rceil> = int r"
    using up lo by (simp add: ceiling_eq_iff)
  then show ?thesis by (simp add: ceil_sqrt_def)
qed

lemma sqrt_up_spec:
  "r = 0 \<or> (r - 1) * (r - 1) < n \<Longrightarrow>
   n \<le> sqrt_up n r * sqrt_up n r \<and>
   (sqrt_up n r = 0 \<or> (sqrt_up n r - 1) * (sqrt_up n r - 1) < n)"
proof (induction n r rule: sqrt_up.induct)
  case (1 n r)
  show ?case
  proof (cases "n \<le> r * r")
    case True
    then show ?thesis using "1.prems" by (simp add: sqrt_up.simps [of n r])
  next
    case False
    then have "Suc r = 0 \<or> (Suc r - 1) * (Suc r - 1) < n" by simp
    from "1.IH" [OF False this] show ?thesis
      using False by (simp add: sqrt_up.simps [of n r])
  qed
qed

lemma ceil_sqrt_code [code]: "ceil_sqrt n = sqrt_up n 0"
  using sqrt_up_spec [of 0 n] by (intro ceil_sqrt_eqI) auto

lemma bind_Inr [simp]: "bind (Inr x) f = f x"
  by (simp add: bind_def)

lemma bind_Inl [simp]: "bind (Inl e) f = Inl e"
  by (simp add: bind_def)

lemma bind_eq_Inr: "bind m f = Inr y \<longleftrightarrow> (\<exists>x. m = Inr x \<and> f x = Inr y)"
  by (cases m) simp_all

lemma ceil_sqrt_pos: "0 < n \<Longrightarrow> 0 < ceil_sqrt n"
  by (simp add: ceil_sqrt_def)

lemma spec_shape_10: "spec_shape 10 = (4, 3)"
proof -
  have "ceil_sqrt 10 = 4" by (rule ceil_sqrt_eqI) simp_all
  then have "nat \<lceil>sqrt 10\<rceil> = 4" by (simp add: ceil_sqrt_def)
  then show ?thesis by (simp add: spec_shape_def)
qed

section \<open>Shape inference\<close>

text \<open>
  Claim C8.  For a panel of kind vector-field, hue-magnitude or single-channel-image
  (kinds 0, 1, 2) that carries no shape and whose first group selects \<open>n \<ge> 1\<close> channels,
  the shape-inference block of \<open>_initialize\<close> stores the shape
  \<open>(ceil(sqrt(n)), ceil(n / ceil(sqrt(n))))\<close> of the specification and does not fail.
  For \<open>n = 10\<close> the shape is \<open>(4, 3)\<close>.
\<close>

theorem infer_shape_spec:
  assumes "getitem c ''type'' = Inr (VInt k)" and "k = 0 \<or> k = 1 \<or> k = 2"
    and "\<not> contains c ''shape''" and "get_group c 0 = Inr g0" and "g0 \<noteq> []"
  shows "infer_shape c =
           Inr (setitem c ''shape'' (VShape [int (fst (spec_shape (length g0))),
                                              int (snd (spec_shape (length g0)))]))"
proof -
  have lt: "py_lt_int (VInt k) 3" using assms(2) by (auto simp: py_lt_int_def)
  have pos: "ceil_sqrt (length g0) \<noteq> 0"
    using ceil_sqrt_pos [of "length g0"] assms(5) by simp
  show ?thesis
    using assms(1,3,4) lt pos
    by (simp add: infer_shape_def ceil_div_def spec_shape_def Let_def ceil_sqrt_def)
qed

theorem infer_shape_spec_witness:
  "infer_shape image10 = Inr (image10 @ [(''shape'', VShape [4, 3])])"
proof -
  have len: "length [0, 1, 2, 3, 4, 5, 6, 7, 8, 9 :: int] = 10" by simp
  have "infer_shape image10 =
          Inr (setitem image10 ''shape''
                 (VShape [int (fst (spec_shape (length [0, 1, 2, 3, 4, 5, 6, 7, 8, 9 :: int]))),
                          int (snd (spec_shape (length [0, 1, 2, 3, 4, 5, 6, 7, 8, 9 :: int])))]))"
    by (rule infer_shape_spec [where k = 2])
       (simp_all add: image10_def getitem_def contains_def get_group_def get_ids_def
          ids_get_def norm_index_def)
  then show ?thesis
    unfolding len spec_shape_10 by (simp add: image10_def setitem_def)
qed

lemma lookup_Cons [simp]: "lookup ((k, v) # d) k' = (if k' = k then Inr v else lookup d k')"
  by (simp add: lookup_def)

lemma lookup_Nil [simp]: "lookup [] k = Inl KeyError"
  by (simp add: lookup_def)

lemma lookup_update: "lookup (AList.update k v d) k' = (if k' = k then Inr v else lookup d k')"
  by (simp add: lookup_def update_conv')

lemma contains_getitem: "getitem c k = Inr v \<Longrightarrow> contains c k"
  by (auto simp: getitem_def contains_def split: option.splits)

lemma contains_setitem [simp]: "contains (setitem c k v) k' \<longleftrightarrow> k' = k \<or> contains c k'"
  by (simp add: contains_def setitem_def update_conv')

section \<open>The example session\<close>

lemma len_caller_dicts: "length caller_dicts = 7"
  by (simp add: caller_dicts_def)

lemma spiking_ids_lamina: "spiking_ids lamina_graph = Inr [5, 2, 9]"
  by code_simp

lemma index_map_529: "index_map [5, 2, 9] = [(2, 0), (5, 1), (9, 2)]"
  by code_simp


lemma add_plot_lamina_raster: "add_plot lamina 0 (KStr ''lamina'') [''''] 0 = Inr lamina_raster"
  by (simp add: add_plot_def add_plot_with_def lamina_def init_def Let_def len_caller_dicts
      contains_def caller_dicts_def raster_config_def append_panel_def set_obj_def
      default_title_def py_str_def startswith_def lamina_raster_def setitem_def)

section \<open>The index map of a measured source\<close>







lemma store_data_frame:
  "store_data self data_file LPU win = Inr self' \<Longrightarrow>
   graph self' = graph self \<and> id_to_data_idx self' = id_to_data_idx self \<and>
   objs self' = objs self \<and> configs self' = configs self"
  by (auto simp: store_data_def Let_def bind_eq_Inr)




section \<open>The global time bound\<close>

lemma foldl_update_maxt_Some:
  "0 < k \<Longrightarrow> \<forall>n\<in>set ns. 0 < n \<Longrightarrow>
   foldl update_maxt (Some k) ns = Some (Min (insert k (set ns)))"
proof (induction ns arbitrary: k)
  case Nil
  then show ?case by simp
next
  case (Cons n ns)
  then have "0 < min k n" by simp
  from Cons.IH [OF this] Cons.prems
  have "foldl update_maxt (Some (min k n)) ns = Some (Min (insert (min k n) (set ns)))" by simp
  moreover have "Min (insert (min k n) (set ns)) = Min (insert k (set (n # ns)))"
    by (cases "ns = []") (simp_all add: min.assoc)
  moreover have "update_maxt (Some k) n = Some (min k n)"
    using Cons.prems by (simp add: update_maxt_def)
  ultimately show ?case by simp
qed

lemma running_minimum:
  assumes "ns \<noteq> []" and "\<forall>n\<in>set ns. 0 < n"
  shows "foldl update_maxt None ns = Some (Min (set ns))"
proof (cases ns)
  case Nil
  then show ?thesis using assms by simp
next
  case (Cons n ms)
  moreover have "update_maxt None n = Some n" by (simp add: update_maxt_def)
  ultimately show ?thesis
    using assms foldl_update_maxt_Some [of n ms] by simp
qed

lemma store_data_maxt:
  "store_data self data_file LPU win = Inr self' \<Longrightarrow>
   \<exists>k d. lookup (data self') k = Inr d \<and> maxt self' = update_maxt (maxt self) (int (shape1 d))"
  by (auto simp: store_data_def Let_def bind_eq_Inr lookup_update)

lemma add_LPU_maxt:
  assumes "add_LPU self data_file gexf_file LPU win is_input g = Inr self'"
  shows "\<exists>k d. lookup (data self') k = Inr d \<and>
           maxt self' = update_maxt (maxt self) (int (shape1 d))"
proof -
  from assms obtain LPU2 self1 where
    reg: "register_topology self gexf_file LPU is_input g = Inr (LPU2, self1)"
    and st: "store_data self1 data_file LPU2 win = Inr self'"
    by (auto simp: add_LPU_def bind_eq_Inr)
  have "maxt self1 = maxt self"
    using reg by (auto simp: register_topology_def Let_def bind_eq_Inr split: if_splits option.splits)
  then show ?thesis using store_data_maxt [OF st] by simp
qed

text \<open>
  Claim C2.  \<open>add_LPU\<close> keeps a running minimum only while \<open>maxt\<close> is true: the test
  \<open>if self._maxt:\<close> takes the value 0 for "not set yet".  After a source with no timestep
  (an empty file, or a window that selects nothing) the next source overwrites the
  bound: registering sources of 0 and then 5 timesteps leaves \<open>maxt = 5\<close>, not the
  minimum 0.  Both files behave so.  (As long as every source has at least one timestep,
  \<open>maxt\<close> is the minimum: lemmas \<open>running_minimum\<close> and \<open>add_LPU_maxt\<close>; the counts 120, 95,
  200 give 95: lemma \<open>maxt_example\<close>.)
\<close>

theorem maxt_forgets_empty_source:
  "map_sum id maxt
     (bind (add_LPU (init False False []) (blank 0 2) None (KStr ''a'') None False None) (\<lambda>s.
        add_LPU s (blank 5 2) None (KStr ''b'') None False None)) = Inr (Some 5) \<and>
   map_sum id maxt
     (bind (add_LPU_legacy (init False False []) (blank 0 2) None (KStr ''a'') None) (\<lambda>s.
        add_LPU_legacy s (blank 5 2) None (KStr ''b'') None)) = Inr (Some 5) \<and>
   map_sum id maxt
     (bind (add_LPU (init False False []) (blank 5 2) None (KStr ''a'') (Some (WSlice (Some 0) (Some 0) None)) False None) (\<lambda>s.
        add_LPU s (blank 5 2) None (KStr ''b'') None False None)) = Inr (Some 5)"
  by code_simp

lemma maxt_example:
  "map_sum id maxt
     (bind (add_LPU (init False False []) (blank 120 2) None (KStr ''a'') None False None) (\<lambda>s.
      bind (add_LPU s (blank 95 2) None (KStr ''b'') None False None) (\<lambda>s.
        add_LPU s (blank 200 2) None (KStr ''c'') None False None))) = Inr (Some 95)"
  by code_simp

section \<open>Plot kinds\<close>

text \<open>
  Claim C6.  In the first block of a panel's initialisation, a kind \<open>'quiver'\<close> or \<open>'hsv'\<close>
  with a number of channel-index groups other than two fails the assertion
  (\<open>AssertionError\<close>), and a kind that is none of the seven recognized strings raises
  \<open>ValueError\<close>; these two exceptions are what the specification calls
  \<open>ConfigurationError\<close>.  With exactly two groups the kind is resolved to 0 or 1.  The
  failure is raised by \<open>_initialize\<close>, that is by \<open>run\<close>: a hue-magnitude panel with one
  group makes \<open>run\<close> fail.
\<close>

theorem plot_kind_checked:
  assumes "getitem c ''type'' = Inr (VStr k)" and "get_ids c = Inr ids"
  shows "((k = ''quiver'' \<or> k = ''hsv'') \<and> ids_len ids \<noteq> 2 \<longrightarrow>
            init_panel self LPU c = Inl AssertionError) \<and>
         (k \<notin> set recognized_kinds \<longrightarrow> init_panel self LPU c = Inl ValueError) \<and>
         ((k = ''quiver'' \<or> k = ''hsv'') \<and> ids_len ids = 2 \<longrightarrow>
            resolve_type self LPU c =
              Inr (setitem c ''type'' (VInt (if k = ''quiver'' then 0 else 1))))"
  using assms contains_getitem [OF assms(1)]
  by (auto simp: init_panel_def resolve_type_def assert_groups_def recognized_kinds_def)

theorem plot_kind_checked_witness:
  "init_panel lamina (KStr ''lamina'') hsv_one_group = Inl AssertionError \<and>
   init_panel lamina (KStr ''lamina'') unknown_kind = Inl ValueError \<and>
   resolve_type lamina (KStr ''lamina'') hsv_two_groups =
     Inr [(''type'', VInt 1), (''ids'', VIds (IdsList [[0], [1]]))] \<and>
   map_sum id (\<lambda>s. ()) (bind (add_plot lamina 1 (KStr ''lamina'') [''''] 0) (\<lambda>s. run s None)) =
     Inl AssertionError \<and>
   map_sum id (\<lambda>s. ()) (bind (add_plot lamina 2 (KStr ''lamina'') [''''] 0) (\<lambda>s. run s None)) =
     Inl ValueError"
proof -
  have r1: "map_sum id (\<lambda>s. ()) (bind (add_plot lamina 1 (KStr ''lamina'') [''''] 0) (\<lambda>s. run s None)) =
     Inl AssertionError" by code_simp
  have r2: "map_sum id (\<lambda>s. ()) (bind (add_plot lamina 2 (KStr ''lamina'') [''''] 0) (\<lambda>s. run s None)) =
     Inl ValueError" by code_simp
  show ?thesis
    using plot_kind_checked [of hsv_one_group "''hsv''" "IdsList [[0, 1]]" lamina "KStr ''lamina''"]
      plot_kind_checked [of unknown_kind "''HSV''" "IdsList [[0], [1]]" lamina "KStr ''lamina''"]
      plot_kind_checked [of hsv_two_groups "''hsv''" "IdsList [[0], [1]]" lamina "KStr ''lamina''"]
      r1 r2
    by (simp add: hsv_one_group_def unknown_kind_def hsv_two_groups_def getitem_def get_ids_def
        ids_len_def recognized_kinds_def setitem_def)
qed

lemma default_kind_not_input:
  "\<not> contains c ''type'' \<Longrightarrow> \<not> startswith (py_str LPU) ''input'' \<Longrightarrow>
   resolve_type self LPU c = Inr (setitem c ''type'' (VInt 4))"
  by (simp add: resolve_type_def)

text \<open>
  Claim C7.  Without a kind, \<open>_initialize\<close> takes single-channel-image only when the
  source is an input source \<^emph>\<open>and\<close> the first selected node is not flagged spiking; the
  claim (and the older file) has \<^emph>\<open>or\<close>.  So a measured source whose first selected node
  (here node 7 of \<open>lamina\<close>) is not spiking gets event-raster, kind 4, where the claim says
  single-channel-image, kind 2; and an input source registered without topology, for
  which the claim also says single-channel-image, fails with \<open>KeyError\<close> on
  \<open>self._graph[LPU]\<close>.  Lemma \<open>default_kind_not_input\<close>: every source that is not an input
  source gets kind 4.
\<close>

theorem default_kind_uses_and:
  "map_of lamina_graph (str_int 7) = Some \<lparr>spiking = False, name = Some ''L1''\<rparr> \<and>
   map_sum id (\<lambda>s. map_of (objs s ! 7) ''type'')
     (bind (add_LPU (init False False caller_dicts) lamina_output (Some lamina_graph)
              (KStr ''lamina'') None False None) (\<lambda>s.
      bind (add_plot s 4 (KStr ''lamina'') [''''] 0) (\<lambda>s. run s None))) = Inr (Some (VInt 4)) \<and>
   map_sum id (\<lambda>s. ())
     (bind (add_LPU (init False False [[]]) lamina_output None (KStr ''vision'') None False None)
        (\<lambda>s. bind (add_plot s 0 (KStr ''input_vision'') [''''] 0) (\<lambda>s. run s None))) = Inl KeyError"
  by code_simp

section \<open>The caller's dictionary\<close>

lemma objs_set_obj [simp]:
  "objs (set_obj self a k v) = (objs self)[a := setitem (objs self ! a) k v]"
  by (simp add: set_obj_def)

lemma objs_append_panel [simp]: "objs (append_panel self LPU a) = objs self"
  by (simp add: append_panel_def)

lemma configs_set_obj [simp]: "configs (set_obj self a k v) = configs self"
  by (simp add: set_obj_def)

lemma map_of_append_panel:
  "map_of (configs (append_panel self LPU a)) LPU =
     Some ((case map_of (configs self) LPU of None \<Rightarrow> [] | Some l \<Rightarrow> l) @ [a])"
  by (simp add: append_panel_def update_conv')

lemma map_of_setitem: "map_of (setitem c k v) k' = (if k' = k then Some v else map_of c k')"
  by (simp add: setitem_def update_conv')

lemma add_plot_with_frame:
  assumes "add_plot_with dkey self config_dict LPU names shift = Inr self'"
  shows "config_dict < length (objs self) \<and>
         length (objs self') = Suc (length (objs self)) \<and>
         take (length (objs self)) (objs self') = objs self \<and>
         contains (objs self' ! length (objs self)) ''ids'' \<and>
         contains (objs self' ! length (objs self)) ''title'' \<and>
         (\<forall>k v. map_of (objs self ! config_dict) k = Some v \<longrightarrow>
                map_of (objs self' ! length (objs self)) k = Some v) \<and>
         (\<exists>l. map_of (configs self') LPU = Some (l @ [length (objs self)]))"
  using assms
  by (auto simp: add_plot_with_def Let_def bind_eq_Inr map_of_append_panel nth_append
      map_of_setitem contains_def split: if_splits)

text \<open>
  Claim C10.  When \<open>add_plot\<close> (of either file) returns, the caller's dictionary is the
  object it was: \<open>add_plot\<close> allocates one new dictionary, the copy, and every object that
  existed before the call, the caller's dictionary among them, has the keys and values
  it had.  The copy holds every key and value of the caller's dictionary, has \<open>'ids'\<close> and
  \<open>'title'\<close>, and is the last panel of \<open>self._config[LPU]\<close>.
\<close>

theorem add_plot_keeps_caller_dict:
  assumes "add_plot self config_dict LPU names shift = Inr self' \<or>
           add_plot_legacy self config_dict LPU names shift = Inr self'"
  shows "config_dict < length (objs self) \<and>
         objs self' ! config_dict = objs self ! config_dict \<and>
         take (length (objs self)) (objs self') = objs self \<and>
         length (objs self') = Suc (length (objs self)) \<and>
         contains (objs self' ! length (objs self)) ''ids'' \<and>
         contains (objs self' ! length (objs self)) ''title'' \<and>
         (\<forall>k v. map_of (objs self ! config_dict) k = Some v \<longrightarrow>
                map_of (objs self' ! length (objs self)) k = Some v) \<and>
         (\<exists>l. map_of (configs self') LPU = Some (l @ [length (objs self)]))"
proof -
  from assms obtain dkey where
    w: "add_plot_with dkey self config_dict LPU names shift = Inr self'"
    by (auto simp: add_plot_def add_plot_legacy_def)
  note f = add_plot_with_frame [OF w]
  from f have lt: "config_dict < length (objs self)"
    and tk: "take (length (objs self)) (objs self') = objs self" by simp_all
  have "objs self' ! config_dict = take (length (objs self)) (objs self') ! config_dict"
    using lt by simp
  then have "objs self' ! config_dict = objs self ! config_dict" using tk by simp
  then show ?thesis using f by blast
qed

theorem add_plot_keeps_caller_dict_witness:
  "add_plot lamina 0 (KStr ''lamina'') [''''] 0 = Inr lamina_raster \<and>
   objs lamina ! 0 = raster_config \<and>
   objs lamina_raster ! 0 = raster_config \<and>
   objs lamina_raster ! 7 = raster_config @ [(''title'', VStr ''lamina'')] \<and>
   map_of (configs lamina_raster) (KStr ''lamina'') = Some [7]"
proof -
  have "objs lamina_raster ! 0 = objs lamina ! 0"
    using add_plot_keeps_caller_dict [of lamina 0 "KStr ''lamina''" "['''']" 0 lamina_raster]
      add_plot_lamina_raster by simp
  then show ?thesis
    using add_plot_lamina_raster
    by (simp add: lamina_def lamina_raster_def init_def caller_dicts_def nth_append)
qed

section \<open>What the steps of a run leave unchanged\<close>

lemma only_objs_refl [simp]: "only_objs s s"
  by (simp add: only_objs_def)

lemma only_objs_trans: "only_objs a b \<Longrightarrow> only_objs b c \<Longrightarrow> only_objs a c"
  by (simp add: only_objs_def)

lemma foldM_rel:
  assumes step: "\<And>x s s'. f x s = Inr s' \<Longrightarrow> R s s'"
    and refl: "\<And>s. R s s" and trans: "\<And>a b c. R a b \<Longrightarrow> R b c \<Longrightarrow> R a c"
  shows "foldM f xs s = Inr s' \<Longrightarrow> R s s'"
proof (induction xs arbitrary: s)
  case Nil
  then show ?case using refl by simp
next
  case (Cons x xs)
  then obtain s1 where "f x s = Inr s1" "foldM f xs s1 = Inr s'"
    by (auto simp: bind_eq_Inr)
  then show ?case using step trans Cons.IH by blast
qed

lemma on_obj_only_objs: "on_obj f a s = Inr s' \<Longrightarrow> only_objs s s'"
  by (auto simp: on_obj_def only_objs_def bind_eq_Inr split: if_splits)

lemma init_source_only_objs: "init_source ka s = Inr s' \<Longrightarrow> only_objs s s'"
  unfolding init_source_def
  by (rule foldM_rel [where R = only_objs, rotated -1])
     (auto intro: on_obj_only_objs only_objs_trans)

lemma init_loop_only_objs: "foldM init_source cs s = Inr s' \<Longrightarrow> only_objs s s'"
  by (rule foldM_rel [where R = only_objs, rotated -1])
     (auto intro: init_source_only_objs only_objs_trans)

lemma same_setup_refl [simp]: "same_setup s s"
  by (simp add: same_setup_def)

lemma same_setup_trans: "same_setup a b \<Longrightarrow> same_setup b c \<Longrightarrow> same_setup a c"
  by (simp add: same_setup_def)


lemma layout_grid_frame:
  "layout_grid s = Inr s' \<Longrightarrow>
   same_setup s s' \<and> frames s' = frames s \<and> cur_t s' = cur_t s \<and> objs s' = objs s"
  by (auto simp: layout_grid_def Let_def bind_eq_Inr same_setup_def split: if_splits)

lemma setup_sink_frame:
  "setup_sink s = Inr s' \<Longrightarrow>
   same_setup s s' \<and> frames s' = frames s \<and> cur_t s' = cur_t s \<and> objs s' = objs s"
  by (auto simp: setup_sink_def same_setup_def split: if_splits)

lemma p_initialize_frame:
  assumes "p_initialize s = Inr s'"
  shows "same_setup s s' \<and> frames s' = frames s \<and> cur_t s' = cur_t s"
proof -
  from assms obtain s1 s2 where
    l: "layout_grid s = Inr s1" and f: "foldM init_source (configs s1) s1 = Inr s2"
    and k: "setup_sink s2 = Inr s'"
    by (auto simp: p_initialize_def bind_eq_Inr)
  from layout_grid_frame [OF l] init_loop_only_objs [OF f] setup_sink_frame [OF k]
  show ?thesis by (simp add: only_objs_def same_setup_def)
qed

lemma update_one_only_objs:
  "update_one d a ks = Inr ks' \<Longrightarrow> only_objs (snd ks) (snd ks')"
  by (auto simp: update_one_def Let_def only_objs_def bind_eq_Inr split: if_splits)

lemma update_source_only_objs:
  assumes "update_source ka s = Inr s'"
  shows "only_objs s s'"
proof -
  from assms obtain d ks where
    f: "foldM (update_one d) (snd ka) (fst ka, s) = Inr ks" and s': "s' = snd ks"
    by (auto simp: update_source_def bind_eq_Inr)
  have "only_objs (snd (fst ka, s)) (snd ks)"
    using f
    by (rule foldM_rel [where R = "\<lambda>a b. only_objs (snd a) (snd b)", rotated -1])
       (auto intro: update_one_only_objs only_objs_trans)
  then show ?thesis using s' by simp
qed

lemma update_loop_only_objs:
  "foldM update_source cs s = Inr s' \<Longrightarrow> only_objs s s'"
  by (rule foldM_rel [where R = only_objs, rotated -1])
     (auto intro: update_source_only_objs only_objs_trans)

lemma draw_frame_frame:
  "draw_frame s = Inr s' \<Longrightarrow>
   same_setup s s' \<and> frames s' = frames s + 1 \<and> writer s' = writer s \<and>
   cur_t s' = cur_t s \<and> objs s' = objs s"
  by (auto simp: draw_frame_def Let_def same_setup_def split: if_splits)

lemma advance_frame:
  "advance s = Inr s' \<Longrightarrow>
   same_setup s s' \<and> frames s' = frames s \<and> writer s' = writer s \<and> objs s' = objs s \<and>
   (\<exists>k. update_interval s = Some k \<and> cur_t s' = cur_t s + k)"
  by (auto simp: advance_def get_interval_def bind_eq_Inr same_setup_def split: option.splits)

lemma p_update_frame:
  assumes "p_update s = Inr s'"
  shows "same_setup s s' \<and> frames s' = frames s + 1 \<and> writer s' = writer s \<and>
         (\<exists>k. update_interval s = Some k \<and> cur_t s' = cur_t s + k)"
proof -
  from assms obtain s1 s2 where
    f: "foldM update_source (configs s) s = Inr s1"
    and g: "draw_frame s1 = Inr s2" and h: "advance s2 = Inr s'"
    by (auto simp: p_update_def bind_eq_Inr)
  from update_loop_only_objs [OF f] draw_frame_frame [OF g] advance_frame [OF h]
  show ?thesis by (auto simp: only_objs_def same_setup_def)
qed

lemma ticks_frame:
  "foldM (\<lambda>i. p_update) ticks s = Inr s' \<Longrightarrow>
   same_setup s s' \<and> frames s' = frames s + length ticks \<and> writer s' = writer s"
proof (induction ticks arbitrary: s)
  case Nil
  then show ?case by (simp add: same_setup_def)
next
  case (Cons i ticks)
  then obtain s1 where a: "p_update s = Inr s1" and b: "foldM (\<lambda>i. p_update) ticks s1 = Inr s'"
    by (auto simp: bind_eq_Inr)
  from p_update_frame [OF a] Cons.IH [OF b] show ?case
    by (simp add: same_setup_def)
qed

lemma effective_interval_frame:
  "effective_interval s = Inr s' \<Longrightarrow>
   maxt s' = maxt s \<and> frames s' = frames s \<and> out_file s' = out_file s \<and>
   writer s' = writer s \<and> objs s' = objs s \<and> configs s' = configs s \<and>
   (\<exists>k. update_interval s' = Some k \<and> cur_t s' = k + 1 \<and>
        (if interval_truthy (update_interval s) then update_interval s = Some k
         else \<exists>m. maxt s = Some m \<and> k = m - 1))"
  by (auto simp: effective_interval_def get_interval_def bind_eq_Inr interval_truthy_def
      split: if_splits option.splits)

section \<open>The tick loop\<close>

lemma range_len_stride:
  assumes "1 \<le> s"
  shows "range_len s m s = nat ((m - 1) div s)"
proof (cases "s < m")
  case True
  have "(m - s - 1) div s + 1 = (m - 1 - s + s) div s"
    using assms by (simp only: div_add_self2) (simp add: algebra_simps)
  then have "(m - s - 1) div s + 1 = (m - 1) div s" by simp
  then show ?thesis using assms True by (simp add: range_len_def)
next
  case False
  then have "(m - 1) div s \<le> 0"
    using assms by (smt (verit) div_pos_pos_trivial div_nonpos_pos_le0 zdiv_mono1)
  then show ?thesis using assms False by (simp add: range_len_def)
qed

lemma py_range_stride:
  "1 \<le> s \<Longrightarrow> py_range s m s = Inr (map (\<lambda>i. s * (int i + 1)) [0..<nat ((m - 1) div s)])"
  by (simp add: py_range_def range_len_stride algebra_simps)

lemma lamina100_reachable:
  "bind (add_LPU (init False False caller_dicts) (blank 100 3) (Some lamina_graph)
           (KStr ''lamina'') None False None) (\<lambda>s.
   bind (add_plot s 0 (KStr ''lamina'') [''''] 0) (\<lambda>s.
     Inr (s\<lparr>update_interval := Some 0\<rparr>))) = Inr lamina100"
  by (simp add: add_LPU_def register_topology_def store_data_def choose_graph_def
      graph_truthy_def Let_def spiking_ids_lamina index_map_529 key_truthy_def
      lamina_def init_def update_maxt_def np_transpose_def blank_def
      add_plot_def add_plot_with_def len_caller_dicts
      contains_def caller_dicts_def raster_config_def append_panel_def set_obj_def
      default_title_def py_str_def startswith_def lamina_raster_def setitem_def lamina100_def)

lemma lamina1_reachable:
  "bind (add_LPU (init False False caller_dicts) (blank 1 3) (Some lamina_graph)
           (KStr ''lamina'') None False None) (\<lambda>s.
   bind (add_plot s 0 (KStr ''lamina'') [''''] 0) (\<lambda>s.
     Inr (s\<lparr>update_interval := Some 0\<rparr>))) = Inr lamina1"
  by (simp add: add_LPU_def register_topology_def store_data_def choose_graph_def
      graph_truthy_def Let_def spiking_ids_lamina index_map_529 key_truthy_def
      lamina_def init_def update_maxt_def np_transpose_def blank_def
      add_plot_def add_plot_with_def len_caller_dicts
      contains_def caller_dicts_def raster_config_def append_panel_def set_obj_def
      default_title_def py_str_def startswith_def lamina_raster_def setitem_def lamina1_def)

text \<open>
  Claim C3, amended.  With an update interval \<open>s \<ge> 1\<close> and the bound \<open>maxt = m\<close>, the ticks
  of \<open>run\<close> are \<open>range(s, m, s)\<close>: the reference points \<open>s, 2 s, \<dots>\<close> strictly below
  \<open>m\<close>, of which there are \<open>floor((m - 1) / s)\<close>; a run that completes has redrawn exactly
  that many times.  The source with 4 timesteps redraws 3 times with stride 1 and once
  with stride 3.
\<close>

theorem run_redraw_count:
  assumes "update_interval self = Some s" and "1 \<le> s" and "maxt self = Some m"
  shows "py_range s m s = Inr (map (\<lambda>i. s * (int i + 1)) [0..<nat ((m - 1) div s)]) \<and>
         (\<forall>i<nat ((m - 1) div s). s * (int i + 1) < m) \<and>
         (\<forall>self'. run self ffn = Inr self' \<longrightarrow> frames self' = frames self + nat ((m - 1) div s))"
proof -
  have r: "py_range s m s = Inr (map (\<lambda>i. s * (int i + 1)) [0..<nat ((m - 1) div s)])"
    using assms(2) by (rule py_range_stride)
  have b: "s * (int i + 1) < m" if "i < nat ((m - 1) div s)" for i
  proof -
    from that have "int i + 1 \<le> (m - 1) div s" by simp
    then have "s * (int i + 1) \<le> s * ((m - 1) div s)"
      using assms(2) by (simp add: mult_left_mono)
    moreover have "s * ((m - 1) div s) + (m - 1) mod s = m - 1" by simp
    moreover have "0 \<le> (m - 1) mod s" using assms(2) by simp
    ultimately show ?thesis by linarith
  qed
  have f: "frames self' = frames self + nat ((m - 1) div s)" if "run self ffn = Inr self'" for self'
  proof -
    from that obtain s1 s2 ticks s3 where
      i: "p_initialize (self\<lparr>final_frame_name := ffn\<rparr>) = Inr s1"
      and e: "effective_interval s1 = Inr s2" and t: "tick_list s2 = Inr ticks"
      and l: "foldM (\<lambda>i. p_update) ticks s2 = Inr s3"
      and c: "(if str_truthy (out_file s3) then p_close s3 else Inr s3) = Inr self'"
      by (auto simp: run_def bind_eq_Inr)
    from p_initialize_frame [OF i] assms
    have 1: "update_interval s1 = Some s" "maxt s1 = Some m" "frames s1 = frames self"
      by (simp_all add: same_setup_def)
    from effective_interval_frame [OF e] 1 assms(2)
    have 2: "update_interval s2 = Some s" "maxt s2 = Some m" "frames s2 = frames self"
      by (auto simp: interval_truthy_def)
    from t 2 r have "length ticks = nat ((m - 1) div s)"
      by (auto simp: tick_list_def get_interval_def)
    with ticks_frame [OF l] 2 have "frames s3 = frames self + nat ((m - 1) div s)" by simp
    moreover from c have "self' = s3" by (auto simp: p_close_def split: if_splits)
    ultimately show ?thesis by simp
  qed
  from r b f show ?thesis by blast
qed

theorem run_redraw_count_witness:
  "update_interval (lamina_raster\<lparr>update_interval := Some 1\<rparr>) = Some 1 \<and>
   maxt (lamina_raster\<lparr>update_interval := Some 1\<rparr>) = Some 4 \<and>
   py_range 1 4 1 = Inr [1, 2, 3] \<and>
   map_sum id frames (run (lamina_raster\<lparr>update_interval := Some 1\<rparr>) None) = Inr 3 \<and>
   map_sum id frames (run (lamina_raster\<lparr>update_interval := Some 3\<rparr>) None) = Inr 1"
proof -
  let ?X = "lamina_raster\<lparr>update_interval := Some 1\<rparr>"
  have u: "update_interval ?X = Some 1" by simp
  have m: "maxt ?X = Some 4" by (simp add: lamina_raster_def lamina_def)
  have "case run ?X None of Inl e \<Rightarrow> False | Inr s \<Rightarrow> True" by code_simp
  then obtain s' where r: "run ?X None = Inr s'" by (cases "run ?X None") auto
  have f0: "frames ?X = 0" by (simp add: lamina_raster_def lamina_def init_def)
  from run_redraw_count [OF u _ m, of None] r f0
  have "py_range 1 4 1 = Inr (map (\<lambda>i. 1 * (int i + 1)) [0..<nat ((4 - 1) div 1)])"
    and "frames s' = 3" by simp_all
  moreover have "map (\<lambda>i. 1 * (int i + 1)) [0..<nat ((4 - 1) div 1)] = [1, 2, 3]" by code_simp
  moreover have "map_sum id frames (run (lamina_raster\<lparr>update_interval := Some 3\<rparr>) None) = Inr 1"
    by code_simp
  ultimately show ?thesis using u m r by simp
qed

text \<open>
  The claim as stated, with \<open>floor(maxt / s)\<close> redraws, fails whenever \<open>s\<close> divides
  \<open>maxt\<close>: the source with 4 timesteps and stride 1 redraws 3 times, not 4.
\<close>

theorem floor_maxt_over_stride_counterexample:
  "\<not> (\<forall>self s m ffn self'.
        update_interval self = Some s \<and> 1 \<le> s \<and> maxt self = Some m \<and> run self ffn = Inr self'
        \<longrightarrow> frames self' = frames self + nat (m div s))"
proof
  let ?X = "lamina_raster\<lparr>update_interval := Some 1\<rparr>"
  assume a: "\<forall>self s m ffn self'.
        update_interval self = Some s \<and> 1 \<le> s \<and> maxt self = Some m \<and> run self ffn = Inr self'
        \<longrightarrow> frames self' = frames self + nat (m div s)"
  have "case run ?X None of Inl e \<Rightarrow> False | Inr s \<Rightarrow> frames s = 3" by code_simp
  then obtain s' where r: "run ?X None = Inr s'" and f: "frames s' = 3"
    by (cases "run ?X None") auto
  have "update_interval ?X = Some 1 \<and> (1::int) \<le> 1 \<and> maxt ?X = Some 4 \<and> run ?X None = Inr s'"
    using r by (simp add: lamina_raster_def lamina_def)
  with a have "frames s' = frames ?X + nat (4 div 1)" by blast
  then show False using f by (simp add: lamina_raster_def lamina_def init_def)
qed

text \<open>
  An update interval that is 0 or \<open>None\<close> is replaced by \<open>maxt - 1\<close>.  When \<open>maxt \<ge> 2\<close>
  the list of ticks is then \<open>[maxt - 1]\<close>: one tick, with the cursor at \<open>maxt\<close>.
\<close>

lemma final_frame_one_tick:
  assumes "\<not> interval_truthy (update_interval self)" and "maxt self = Some m" and "2 \<le> m"
  shows "(\<forall>s1. p_initialize (self\<lparr>final_frame_name := ffn\<rparr>) = Inr s1 \<longrightarrow>
            (\<exists>s2. effective_interval s1 = Inr s2 \<and> update_interval s2 = Some (m - 1) \<and>
                  cur_t s2 = m \<and> tick_list s2 = Inr [m - 1])) \<and>
         (\<forall>self'. run self ffn = Inr self' \<longrightarrow>
            update_interval self' = Some (m - 1) \<and> frames self' = frames self + 1 \<and>
            cur_t self' = 2 * m - 1)"
proof -
  have rng: "py_range (m - 1) m (m - 1) = Inr [m - 1]"
    using assms(3) by (simp add: py_range_def range_len_def)
  have a: "\<exists>s2. effective_interval s1 = Inr s2 \<and> update_interval s2 = Some (m - 1) \<and>
                  cur_t s2 = m \<and> tick_list s2 = Inr [m - 1]"
    if i: "p_initialize (self\<lparr>final_frame_name := ffn\<rparr>) = Inr s1" for s1
  proof -
    from p_initialize_frame [OF i] assms
    have 1: "\<not> interval_truthy (update_interval s1)" "maxt s1 = Some m"
      by (simp_all add: same_setup_def)
    then show ?thesis
      using rng by (simp add: effective_interval_def get_interval_def tick_list_def)
  qed
  have b: "update_interval self' = Some (m - 1) \<and> frames self' = frames self + 1 \<and>
            cur_t self' = 2 * m - 1" if "run self ffn = Inr self'" for self'
  proof -
    from that obtain s1 s2 ticks s3 where
      i: "p_initialize (self\<lparr>final_frame_name := ffn\<rparr>) = Inr s1"
      and e: "effective_interval s1 = Inr s2" and t: "tick_list s2 = Inr ticks"
      and l: "foldM (\<lambda>i. p_update) ticks s2 = Inr s3"
      and c: "(if str_truthy (out_file s3) then p_close s3 else Inr s3) = Inr self'"
      by (auto simp: run_def bind_eq_Inr)
    from a [OF i] e t have 2: "update_interval s2 = Some (m - 1)" "cur_t s2 = m" "ticks = [m - 1]"
      by auto
    from p_initialize_frame [OF i] effective_interval_frame [OF e]
    have f2: "frames s2 = frames self" by simp
    from l 2 have u: "p_update s2 = Inr s3" by (auto simp: bind_eq_Inr)
    from p_update_frame [OF u] 2 f2
    have "update_interval s3 = Some (m - 1)" "frames s3 = frames self + 1" "cur_t s3 = m + (m - 1)"
      by (simp_all add: same_setup_def)
    moreover from c have "self' = s3" by (auto simp: p_close_def split: if_splits)
    ultimately show ?thesis by simp
  qed
  from a b show ?thesis by blast
qed

lemma final_frame_one_tick_example:
  "\<not> interval_truthy (update_interval lamina100) \<and> maxt lamina100 = Some 100 \<and>
   map_sum id (\<lambda>s. (update_interval s, frames s, cur_t s)) (run lamina100 None) =
     Inr (Some 99, 1, 199)"
proof -
  have u: "\<not> interval_truthy (update_interval lamina100)"
    by (simp add: lamina100_def interval_truthy_def)
  have m: "maxt lamina100 = Some 100" by (simp add: lamina100_def)
  have "case run lamina100 None of Inl e \<Rightarrow> False | Inr s \<Rightarrow> True" by code_simp
  then obtain s' where r: "run lamina100 None = Inr s'" by (cases "run lamina100 None") auto
  have f0: "frames lamina100 = 0"
    by (simp add: lamina100_def lamina_raster_def lamina_def init_def)
  from final_frame_one_tick [OF u m, of None] r f0
  have "update_interval s' = Some 99 \<and> frames s' = 1 \<and> cur_t s' = 199" by simp
  then show ?thesis using u m r by simp
qed

text \<open>
  Claim C4.  The replacement of a false update interval by \<open>maxt - 1\<close> gives exactly one
  tick only when \<open>maxt \<ge> 2\<close> (lemma \<open>final_frame_one_tick\<close>; 0 and 100 give the interval 99
  and one tick with the cursor at 100).  For a source with a single timestep the
  interval stays 0 and \<open>range(0, 1, 0)\<close> raises \<open>ValueError\<close>: \<open>run\<close> aborts before any tick,
  where the docstring of \<open>run\<close> promises the final frame.
\<close>

theorem final_frame_single_timestep:
  "\<not> interval_truthy (update_interval lamina1) \<and> maxt lamina1 = Some 1 \<and>
   map_sum id (\<lambda>s. (update_interval s, cur_t s, map_sum id length (tick_list s)))
     (bind (p_initialize lamina1) effective_interval) = Inr (Some 0, 1, Inl ValueError) \<and>
   map_sum id frames (run lamina1 None) = Inl ValueError"
  by code_simp

section \<open>Each panel is recomputed once per tick\<close>





lemma update_addrs_only_objs:
  "foldM (update_one d) addrs ks = Inr ks' \<Longrightarrow> only_objs (snd ks) (snd ks')"
  by (rule foldM_rel [where R = "\<lambda>a b. only_objs (snd a) (snd b)", rotated -1])
     (auto intro: update_one_only_objs only_objs_trans)














lemma lamina_waveform_reachable:
  "bind (add_plot lamina 3 (KStr ''lamina'') [''''] 0) (\<lambda>s. Inr (s\<lparr>update_interval := Some 1\<rparr>)) =
     Inr lamina_waveform"
  by (simp add: add_plot_def add_plot_with_def lamina_def init_def Let_def len_caller_dicts
      contains_def caller_dicts_def waveform_config_def append_panel_def set_obj_def
      default_title_def py_str_def startswith_def lamina_waveform_def setitem_def)

lemma lamina_image_reachable:
  "bind (add_plot lamina 5 (KStr ''lamina'') [''''] 0) (\<lambda>s. Inr (s\<lparr>update_interval := Some 0\<rparr>)) =
     Inr lamina_image"
  by (simp add: add_plot_def add_plot_with_def lamina_def init_def Let_def len_caller_dicts
      contains_def caller_dicts_def image_config_def append_panel_def set_obj_def
      default_title_def py_str_def startswith_def lamina_image_def setitem_def)


section \<open>The rolling buffer of a waveform panel\<close>




lemma mapM_length: "mapM f xs = Inr ys \<Longrightarrow> length ys = length xs"
  by (induction xs arbitrary: ys) (auto simp: bind_eq_Inr)










section \<open>Failures during a tick\<close>


lemma norm_index_out: "\<not> in_axis n i \<Longrightarrow> norm_index n i = Inl IndexError"
  by (auto simp: norm_index_def in_axis_def)













section \<open>The panels of a visualizer are distinct objects\<close>

text \<open>
  Every \<open>add_plot\<close> stores a fresh copy, so a visualizer built from \<open>__init__\<close> by \<open>add_LPU\<close>
  and \<open>add_plot\<close> satisfies \<open>panels_ok\<close>; this is the distinctness that the statements
  about ticks assume.
\<close>

lemma update_split:
  "map_of cs k = Some l \<Longrightarrow>
   \<exists>pre post. cs = pre @ (k, l) # post \<and> AList.update k v cs = pre @ (k, v) # post"
proof (induction cs)
  case Nil
  then show ?case by simp
next
  case (Cons x cs)
  show ?case
  proof (cases "fst x = k")
    case True
    with Cons.prems have "x = (k, l)" by (cases x) auto
    then have "x # cs = [] @ (k, l) # cs \<and> AList.update k v (x # cs) = [] @ (k, v) # cs"
      by simp
    then show ?thesis by blast
  next
    case False
    with Cons.prems have "map_of cs k = Some l" by (cases x) auto
    from Cons.IH [OF this] obtain pre post where
      "cs = pre @ (k, l) # post" "AList.update k v cs = pre @ (k, v) # post" by blast
    with False have "x # cs = (x # pre) @ (k, l) # post \<and>
      AList.update k v (x # cs) = (x # pre) @ (k, v) # post"
      by (cases x) auto
    then show ?thesis by blast
  qed
qed

lemma panel_addrs_update:
  assumes "map_of cs k = Some l"
  shows "set (panel_addrs (AList.update k (l @ [c]) cs)) = insert c (set (panel_addrs cs)) \<and>
         (distinct (panel_addrs cs) \<and> c \<notin> set (panel_addrs cs) \<longrightarrow>
            distinct (panel_addrs (AList.update k (l @ [c]) cs)))"
proof -
  from update_split [OF assms, of "l @ [c]"] obtain pre post where
    "cs = pre @ (k, l) # post" "AList.update k (l @ [c]) cs = pre @ (k, l @ [c]) # post"
    by blast
  then show ?thesis by (auto simp: panel_addrs_def)
qed

lemma panel_addrs_new_key [simp]: "panel_addrs (cs @ [(k, [])]) = panel_addrs cs"
  by (simp add: panel_addrs_def)

lemma add_plot_with_configs:
  assumes "add_plot_with dkey s config_dict LPU names shift = Inr s'"
  shows "length (objs s') = Suc (length (objs s)) \<and>
         (\<exists>cs l. panel_addrs cs = panel_addrs (configs s) \<and> map_of cs LPU = Some l \<and>
            configs s' = AList.update LPU (l @ [length (objs s)]) cs)"
proof -
  have len: "length (objs s') = Suc (length (objs s))"
    using add_plot_with_frame [OF assms] by simp
  define cs where "cs = (if map_of (configs s) LPU = None
                         then configs s @ [(LPU, [])] else configs s)"
  have "map_of cs LPU \<noteq> None"
    by (cases "map_of (configs s) LPU") (simp_all add: cs_def map_add_def)
  then obtain l where l: "map_of cs LPU = Some l" by blast
  have pa: "panel_addrs cs = panel_addrs (configs s)" by (simp add: cs_def)
  have "configs s' = AList.update LPU (l @ [length (objs s)]) cs"
    using assms l unfolding cs_def
    by (auto simp: add_plot_with_def Let_def bind_eq_Inr append_panel_def split: if_splits)
  with len pa l show ?thesis by blast
qed

lemma add_plot_with_panels_ok:
  assumes "add_plot_with dkey s config_dict LPU names shift = Inr s'" and "panels_ok s"
  shows "panels_ok s'"
proof -
  from add_plot_with_configs [OF assms(1)] obtain cs l where
    len: "length (objs s') = Suc (length (objs s))"
    and pa: "panel_addrs cs = panel_addrs (configs s)" and l: "map_of cs LPU = Some l"
    and c': "configs s' = AList.update LPU (l @ [length (objs s)]) cs"
    by blast
  from assms(2) have d: "distinct (panel_addrs (configs s))"
    and b: "\<forall>a\<in>set (panel_addrs (configs s)). a < length (objs s)"
    by (simp_all add: panels_ok_def list_all_iff)
  from b have fresh: "length (objs s) \<notin> set (panel_addrs cs)" using pa by auto
  from panel_addrs_update [OF l, of "length (objs s)"] d fresh pa c'
  have "set (panel_addrs (configs s')) = insert (length (objs s)) (set (panel_addrs (configs s)))"
    and "distinct (panel_addrs (configs s'))" by simp_all
  with b len show ?thesis by (auto simp: panels_ok_def list_all_iff)
qed

lemma add_LPU_panels_ok:
  assumes "add_LPU s data_file gexf_file LPU win is_input g = Inr s'" and "panels_ok s"
  shows "panels_ok s'"
proof -
  from assms(1) obtain LPU2 s1 where
    reg: "register_topology s gexf_file LPU is_input g = Inr (LPU2, s1)"
    and st: "store_data s1 data_file LPU2 win = Inr s'"
    by (auto simp: add_LPU_def bind_eq_Inr)
  from reg have "configs s1 = configs s \<and> objs s1 = objs s"
    by (auto simp: register_topology_def Let_def bind_eq_Inr split: if_splits option.splits)
  with store_data_frame [OF st] assms(2) show ?thesis by (simp add: panels_ok_def)
qed

lemma init_panels_ok: "panels_ok (init ff av os)"
  by (simp add: panels_ok_def init_def panel_addrs_def)

lemma panels_ok_distinct: "panels_ok s \<Longrightarrow> distinct (concat (map snd (configs s)))"
  by (simp add: panels_ok_def panel_addrs_def)

lemma add_plot_panels_ok:
  "add_plot s config_dict LPU names shift = Inr s' \<Longrightarrow> panels_ok s \<Longrightarrow> panels_ok s'"
  unfolding add_plot_def by (rule add_plot_with_panels_ok)

section \<open>The inferred grid has room for every channel\<close>

lemma spec_shape_covers:
  assumes "0 < n"
  shows "n \<le> fst (spec_shape n) * snd (spec_shape n)"
proof -
  define r where "r = nat \<lceil>sqrt (real n)\<rceil>"
  define q where "q = \<lceil>real n / real r\<rceil>"
  have r: "0 < r" using assms ceil_sqrt_pos [of n] by (simp add: r_def ceil_sqrt_def)
  have a: "real n / real r \<le> real_of_int q" unfolding q_def by (rule le_of_int_ceiling)
  have "0 \<le> real n / real r" by simp
  then have q0: "0 \<le> q" unfolding q_def by (simp only: zero_le_ceiling)
  have "real n = real r * (real n / real r)" using r by simp
  also have "\<dots> \<le> real r * real_of_int q"
    using a r by (intro mult_left_mono) simp_all
  also have "real_of_int q = real (nat q)" using q0 by simp
  finally have "real n \<le> real (r * nat q)" by simp
  then have "n \<le> r * nat q" by (simp only: of_nat_le_iff)
  then show ?thesis by (simp add: spec_shape_def r_def q_def)
qed

end
